theory Spec2Isabelle
  imports Main
begin

section \<open>Python strings\<close>

text \<open>
  A Python \<open>str\<close> is a sequence of Unicode code points; \<open>len\<close> counts code points.
  A string is modelled as the list of its code points, so that the bullet character
  U+2022 is one element, as it is for \<open>startswith\<close> and \<open>len\<close> in the source.
\<close>

type_synonym pystr = "nat list"

definition lit :: "string \<Rightarrow> pystr" where
  "lit s = map of_char s"

text \<open>The code points for which \<open>str.isspace\<close> holds; \<open>str.strip()\<close> removes exactly these.\<close>

definition is_space :: "nat \<Rightarrow> bool" where
  "is_space c \<longleftrightarrow>
     (9 \<le> c \<and> c \<le> 13) \<or> (28 \<le> c \<and> c \<le> 32) \<or> c = 133 \<or> c = 160 \<or> c = 5760 \<or>
     (8192 \<le> c \<and> c \<le> 8202) \<or> c = 8232 \<or> c = 8233 \<or> c = 8239 \<or> c = 8287 \<or> c = 12288"

definition py_strip :: "pystr \<Rightarrow> pystr" where
  "py_strip s = rev (dropWhile is_space (rev (dropWhile is_space s)))"

text \<open>\<open>s.split(sep)\<close> for a one-character separator: one more field than separators.\<close>

fun py_split :: "nat \<Rightarrow> pystr \<Rightarrow> pystr list" where
  "py_split sep [] = [[]]"
| "py_split sep (c # cs) =
     (if c = sep then [] # py_split sep cs
      else (case py_split sep cs of [] \<Rightarrow> [[c]] | l # ls \<Rightarrow> (c # l) # ls))"

fun py_join :: "pystr \<Rightarrow> pystr list \<Rightarrow> pystr" where
  "py_join sep [] = []"
| "py_join sep [x] = x"
| "py_join sep (x # y # ys) = x @ sep @ py_join sep (y # ys)"

text \<open>
  Slice bounds as Python adjusts them: a negative bound counts from the end, and
  every bound is clamped into \<open>0..len\<close>.
\<close>

definition py_bound :: "nat \<Rightarrow> int \<Rightarrow> nat" where
  "py_bound n i = (if i < 0 then nat (int n + i) else min n (nat i))"

definition py_slice :: "pystr \<Rightarrow> int \<Rightarrow> int \<Rightarrow> pystr" where
  "py_slice s i j =
     (let a = py_bound (length s) i; b = py_bound (length s) j in take (b - a) (drop a s))"

text \<open>
  \<open>s.rfind(sub, i, j)\<close>: the highest index \<open>k\<close> with \<open>i \<le> k\<close>, \<open>k + len(sub) \<le> j\<close>
  (bounds adjusted as for slices) where \<open>sub\<close> occurs, or \<open>-1\<close>.
\<close>

definition py_rfind :: "pystr \<Rightarrow> pystr \<Rightarrow> int \<Rightarrow> int \<Rightarrow> int" where
  "py_rfind s sub i j =
     (let a = py_bound (length s) i; b = py_bound (length s) j in
      case List.find (\<lambda>k. take (length sub) (drop k s) = sub) (rev [a ..< Suc b - length sub]) of
        None \<Rightarrow> - 1
      | Some k \<Rightarrow> int k)"

text \<open>\<open>str(n)\<close> for a non-negative integer: its decimal digits.\<close>

fun str_nat :: "nat \<Rightarrow> pystr" where
  "str_nat n = (if n < 10 then [48 + n] else str_nat (n div 10) @ [48 + n mod 10])"

declare str_nat.simps [simp del]

section \<open>Text normalizer\<close>

definition truncation_marker :: pystr where
  "truncation_marker = lit ''\<newline>\<newline>[Content truncated for length...]''"

text \<open>
  The first two statements of \<open>clean_text_for_llm\<close>:
  \<^verbatim>\<open>lines = [line.strip() for line in text.split("\n") if line.strip()]\<close> and
  \<^verbatim>\<open>cleaned = "\n".join(lines)\<close>.
\<close>

definition clean_lines :: "pystr \<Rightarrow> pystr list" where
  "clean_lines text = map py_strip (filter (\<lambda>line. py_strip line \<noteq> []) (py_split 10 text))"

definition clean_joined :: "pystr \<Rightarrow> pystr" where
  "clean_joined text = py_join [10] (clean_lines text)"

definition clean_text_for_llm :: "pystr \<Rightarrow> int \<Rightarrow> pystr" where
  "clean_text_for_llm text max_chars =
     (let cleaned = clean_joined text in
      if int (length cleaned) > max_chars
      then py_slice cleaned 0 max_chars @ truncation_marker
      else cleaned)"

text \<open>
  A non-empty text has a blank line when one of its newline-separated lines is empty or
  consists of whitespace only.
\<close>

definition has_blank_line :: "pystr \<Rightarrow> bool" where
  "has_blank_line s \<longleftrightarrow> s \<noteq> [] \<and> (\<exists>line\<in>set (py_split 10 s). py_strip line = [])"

section \<open>Chunk splitter\<close>

definition CHUNK_SIZE_TOKENS :: int where "CHUNK_SIZE_TOKENS = 1000"
definition CHUNK_OVERLAP_TOKENS :: int where "CHUNK_OVERLAP_TOKENS = 75"
definition CHARS_PER_TOKEN :: int where "CHARS_PER_TOKEN = 4"
definition MAX_WORKERS :: nat where "MAX_WORKERS = 2"

text \<open>
  One iteration of the \<open>while\<close> loop of \<open>chunk_text\<close>, in three parts: the end offset
  after the sentence-boundary search, the list of chunks after the append, and the
  next start offset.
\<close>

definition chunk_end :: "pystr \<Rightarrow> int \<Rightarrow> int \<Rightarrow> int" where
  "chunk_end text chunk_chars start =
     (let end = start + chunk_chars in
      if end < int (length text) then
        (let search_start = max (end - 200) start;
             last_period = py_rfind text (lit ''. '') search_start end
         in if last_period > start then last_period + 1 else end)
      else end)"

definition chunk_emit :: "pystr \<Rightarrow> int \<Rightarrow> int \<Rightarrow> pystr list \<Rightarrow> pystr list" where
  "chunk_emit text start end chunks =
     (let chunk = py_strip (py_slice text start end) in
      if chunk \<noteq> [] then chunks @ [chunk] else chunks)"

definition chunk_next :: "pystr \<Rightarrow> int \<Rightarrow> int \<Rightarrow> int" where
  "chunk_next text overlap_chars end =
     (if end < int (length text) then end - overlap_chars else int (length text))"

text \<open>The loop may run forever, so its result is an option: \<open>None\<close> is not returning.\<close>

partial_function (option) chunk_loop ::
  "pystr \<Rightarrow> int \<Rightarrow> int \<Rightarrow> int \<Rightarrow> pystr list \<Rightarrow> pystr list option" where
  "chunk_loop text chunk_chars overlap_chars start chunks =
     (if start < int (length text) then
        chunk_loop text chunk_chars overlap_chars
          (chunk_next text overlap_chars (chunk_end text chunk_chars start))
          (chunk_emit text start (chunk_end text chunk_chars start) chunks)
      else Some chunks)"

declare chunk_loop.simps [code]

definition chunk_text :: "pystr \<Rightarrow> int \<Rightarrow> int \<Rightarrow> pystr list option" where
  "chunk_text text chunk_size overlap =
     chunk_loop text (chunk_size * CHARS_PER_TOKEN) (overlap * CHARS_PER_TOKEN) 0 []"

text \<open>
  Position \<open>p\<close> of the text lies inside an occurrence of the chunk \<open>c\<close> in the text.
\<close>

definition in_chunk :: "pystr \<Rightarrow> pystr \<Rightarrow> nat \<Rightarrow> bool" where
  "in_chunk text c p \<longleftrightarrow> (\<exists>s\<le>p. p < s + length c \<and> take (length c) (drop s text) = c)"

text \<open>A test input: the letter a, 9000 spaces, the letter b.\<close>

definition sparse_text :: pystr where
  "sparse_text = 97 # replicate 9000 32 @ [98]"

text \<open>
  A test input with one sentence end inside the lookback window of the first chunk and
  a space where the second chunk starts: 3601 letters a, a space, 298 letters a,
  \<open>". "\<close>, 5000 letters b.
\<close>

definition sentence_text :: pystr where
  "sentence_text = replicate 3601 97 @ [32] @ replicate 298 97 @ [46, 32] @ replicate 5000 98"

section \<open>Language-model backend, collaborators and events\<close>

text \<open>
  An exception value carries its \<open>str(e)\<close>. A request made with \<open>timeout=180.0\<close> can run
  into four timeouts of the HTTP client: \<open>ReadTimeout\<close> (no answer in time),
  \<open>ConnectTimeout\<close>, \<open>WriteTimeout\<close> and \<open>PoolTimeout\<close>; the source names only the first
  in an \<open>except\<close> clause. \<open>ValueError\<close> is what the pipeline itself raises, \<open>TypeError\<close>
  what \<open>str.join\<close> raises on a \<open>None\<close> item; every other exception is an
  \<open>OtherException\<close>.
\<close>

datatype exn =
    ReadTimeout pystr
  | ConnectTimeout pystr
  | WriteTimeout pystr
  | PoolTimeout pystr
  | ValueError pystr
  | TypeError pystr
  | OtherException pystr

fun exn_str :: "exn \<Rightarrow> pystr" where
  "exn_str (ReadTimeout m) = m"
| "exn_str (ConnectTimeout m) = m"
| "exn_str (WriteTimeout m) = m"
| "exn_str (PoolTimeout m) = m"
| "exn_str (ValueError m) = m"
| "exn_str (TypeError m) = m"
| "exn_str (OtherException m) = m"

text \<open>
  The three places that post to \<open>LLAMA_API_URL\<close>. The backend is a parameter: for a call
  site and a prompt it raises (\<open>Inl\<close>) or gives the value of
  \<open>result.get("response", "")\<close> (\<open>Inr\<close>).
\<close>

datatype call_site = ChunkCall nat | SingleCall | MergeCall

type_synonym llm_backend = "call_site \<Rightarrow> pystr \<Rightarrow> exn + pystr"

text \<open>
  What a run does to its collaborators, in order: posts to the backend, status updates
  \<open>(firebase_uid, file_id, status, progress, message)\<close> and inserts into the summaries
  table \<open>(document_id, firebase_uid, summary_text)\<close>.
\<close>

datatype event =
    BackendCall call_site pystr
  | StatusUpdate pystr pystr pystr nat pystr
  | Insert pystr pystr pystr

type_synonym 'a io = "'a \<times> event list"

text \<open>
  The collaborators of a run. \<open>task_fault idx\<close> is the exception that
  \<open>future.result()\<close> raises for the task of chunk \<open>idx\<close>, if any; \<open>completion n\<close> is the
  order in which \<open>as_completed\<close> yields the \<open>n\<close> futures; \<open>supabase_insert\<close> is the
  exception raised by the insert, if any. Status updates are taken to succeed.
\<close>

record env =
  backend :: llm_backend
  task_fault :: "nat \<Rightarrow> exn option"
  completion :: "nat \<Rightarrow> nat list"
  supabase_insert :: "pystr \<Rightarrow> pystr \<Rightarrow> pystr \<Rightarrow> exn option"
  download_from_storage :: "pystr \<Rightarrow> exn + pystr"
  extract_pdf :: "pystr \<Rightarrow> exn + pystr"
  extract_tika :: "pystr \<Rightarrow> pystr \<Rightarrow> exn + pystr"
  extract_image_ocr :: "pystr \<Rightarrow> exn + pystr"
  extract_audio :: "pystr \<Rightarrow> pystr \<Rightarrow> exn + pystr"
  extract_video :: "pystr \<Rightarrow> pystr \<Rightarrow> exn + pystr"
  extract_url :: "pystr \<Rightarrow> exn + pystr"

definition py_startswith :: "pystr \<Rightarrow> pystr \<Rightarrow> bool" where
  "py_startswith s prefix \<longleftrightarrow> take (length prefix) s = prefix"

section \<open>Segment summarizer\<close>

definition chunk_prompt :: "pystr \<Rightarrow> pystr" where
  "chunk_prompt chunk =
     lit ''Extract the key points from this study material as brief bullet points.\<newline>Be concise and factual. Use 3-5 bullet points maximum.\<newline>\<newline>Content:\<newline>''
     @ chunk @ lit ''\<newline>\<newline>Key Points:\<newline>'' @ [8226]"

text \<open>The sentinel \<^verbatim>\<open>f"\<bullet> [Chunk {chunk_idx + 1} processing failed: {str(e)[:50]}]"\<close>.\<close>

definition chunk_failure_sentinel :: "nat \<Rightarrow> exn \<Rightarrow> pystr" where
  "chunk_failure_sentinel chunk_idx e =
     [8226] @ lit '' [Chunk '' @ str_nat (chunk_idx + 1) @ lit '' processing failed: ''
     @ take 50 (exn_str e) @ lit '']''"

text \<open>The whole request is inside \<open>try\<close> with \<open>except Exception\<close>, so the result is a string.\<close>

definition summarize_chunk_sync :: "llm_backend \<Rightarrow> pystr \<Rightarrow> nat \<Rightarrow> pystr io" where
  "summarize_chunk_sync b chunk chunk_idx =
     (case b (ChunkCall chunk_idx) (chunk_prompt chunk) of
        Inr summary \<Rightarrow>
          if summary \<noteq> [] \<and> \<not> py_startswith (py_strip summary) [8226]
          then [8226, 32] @ summary else summary
      | Inl e \<Rightarrow> chunk_failure_sentinel chunk_idx e,
      [BackendCall (ChunkCall chunk_idx) (chunk_prompt chunk)])"

section \<open>Fan-out scheduler\<close>

text \<open>
  The sequential branch of \<open>generate_summary\<close>:
  \<^verbatim>\<open>for i, chunk in enumerate(chunks): chunk_summaries.append(summarize_chunk_sync(chunk, i))\<close>.
  A slot of \<open>chunk_summaries\<close> is a string or \<open>None\<close>.
\<close>

fun sequential_summaries ::
  "llm_backend \<Rightarrow> nat \<Rightarrow> pystr list \<Rightarrow> pystr option list io" where
  "sequential_summaries b i [] = ([], [])"
| "sequential_summaries b i (chunk # chunks) =
     (case summarize_chunk_sync b chunk i of (summary, ev) \<Rightarrow>
      case sequential_summaries b (Suc i) chunks of (rest, evs) \<Rightarrow>
        (Some summary # rest, ev @ evs))"

text \<open>
  \<open>future.result()\<close> for the task submitted as \<open>summarize_chunk_sync(chunk, idx)\<close>: the
  task's value, or the exception of a task that failed.
\<close>

definition future_result ::
  "llm_backend \<Rightarrow> (nat \<Rightarrow> exn option) \<Rightarrow> pystr list \<Rightarrow> nat \<Rightarrow> exn + pystr" where
  "future_result b fault chunks idx =
     (case fault idx of
        Some e \<Rightarrow> Inl e
      | None \<Rightarrow> Inr (fst (summarize_chunk_sync b (chunks ! idx) idx)))"

text \<open>The sentinel \<^verbatim>\<open>f"\<bullet> [Chunk {idx + 1} failed]"\<close>.\<close>

definition task_failure_sentinel :: "nat \<Rightarrow> pystr" where
  "task_failure_sentinel idx = [8226] @ lit '' [Chunk '' @ str_nat (idx + 1) @ lit '' failed]''"

text \<open>The loop over \<open>as_completed(future_to_idx)\<close>, in the given completion order.\<close>

fun collect_results ::
  "llm_backend \<Rightarrow> (nat \<Rightarrow> exn option) \<Rightarrow> pystr list \<Rightarrow> nat list \<Rightarrow>
   pystr option list \<Rightarrow> pystr option list" where
  "collect_results b fault chunks [] chunk_summaries = chunk_summaries"
| "collect_results b fault chunks (idx # order) chunk_summaries =
     collect_results b fault chunks order
       (chunk_summaries
          [idx := Some (case future_result b fault chunks idx of
                          Inr s \<Rightarrow> s
                        | Inl e \<Rightarrow> task_failure_sentinel idx)])"

text \<open>
  The requests of the tasks submitted by
  \<^verbatim>\<open>executor.submit(summarize_chunk_sync, chunk, idx) for idx, chunk in enumerate(chunks)\<close>:
  the workers take the tasks in submission order and each task posts its request when
  it starts.
\<close>

fun submitted_requests :: "llm_backend \<Rightarrow> nat \<Rightarrow> pystr list \<Rightarrow> event list" where
  "submitted_requests b idx [] = []"
| "submitted_requests b idx (chunk # chunks) =
     snd (summarize_chunk_sync b chunk idx) @ submitted_requests b (Suc idx) chunks"

definition parallel_chunk_summarization ::
  "llm_backend \<Rightarrow> (nat \<Rightarrow> exn option) \<Rightarrow> nat list \<Rightarrow> pystr list \<Rightarrow> pystr option list io" where
  "parallel_chunk_summarization b fault order chunks =
     (collect_results b fault chunks order (replicate (length chunks) None),
      submitted_requests b 0 chunks)"

text \<open>Stage 1 of \<open>generate_summary\<close>: sequential for at most two chunks, parallel otherwise.\<close>

definition stage1_summaries :: "env \<Rightarrow> pystr list \<Rightarrow> pystr option list io" where
  "stage1_summaries env chunks =
     (if length chunks \<le> 2 then sequential_summaries (backend env) 0 chunks
      else parallel_chunk_summarization (backend env) (task_fault env)
             (completion env (length chunks)) chunks)"

section \<open>Single-pass summary and synthesizer\<close>

definition single_prompt :: "pystr \<Rightarrow> pystr" where
  "single_prompt text =
     lit ''You are a study assistant. Create a concise summary of this study material.\<newline>\<newline>Focus on:\<newline>- Key concepts and definitions\<newline>- Main arguments or ideas\<newline>- Important facts\<newline>\<newline>Study Material:\<newline>''
     @ text @ lit ''\<newline>\<newline>Summary:''"

definition generate_single_summary :: "llm_backend \<Rightarrow> pystr \<Rightarrow> (exn + pystr) io" where
  "generate_single_summary b text =
     (case b SingleCall (single_prompt text) of
        Inr response \<Rightarrow> Inr response
      | Inl e \<Rightarrow>
          (case e of
             ReadTimeout m \<Rightarrow>
               Inl (ValueError
                 (lit ''Summary generation timed out. Please try with a smaller document.''))
           | _ \<Rightarrow> Inl (ValueError (lit ''Summary generation failed: '' @ exn_str e))),
      [BackendCall SingleCall (single_prompt text)])"

definition merge_prompt :: "pystr \<Rightarrow> pystr" where
  "merge_prompt combined_bullets =
     lit ''You are a study assistant. Below are key points extracted from different sections of a study document.\<newline>Synthesize these into a clear, coherent summary. Remove any redundancy and organize logically.\<newline>\<newline>Key Points from Document:\<newline>''
     @ combined_bullets @ lit ''\<newline>\<newline>Final Summary:''"

text \<open>
  \<open>"\n".join(chunk_summaries)\<close> is outside the \<open>try\<close>: a \<open>None\<close> slot raises \<open>TypeError\<close>
  before any request is made.
\<close>

definition merge_summaries :: "llm_backend \<Rightarrow> pystr option list \<Rightarrow> (exn + pystr) io" where
  "merge_summaries b chunk_summaries =
     (case those chunk_summaries of
        None \<Rightarrow>
          (Inl (TypeError
             (lit ''sequence item ''
              @ str_nat (length (takeWhile (\<lambda>slot. slot \<noteq> None) chunk_summaries))
              @ lit '': expected str instance, NoneType found'')), [])
      | Some summaries \<Rightarrow>
          (let combined_bullets = py_join [10] summaries in
           (case b MergeCall (merge_prompt combined_bullets) of
              Inr response \<Rightarrow> Inr response
            | Inl e \<Rightarrow>
                (case e of
                   ReadTimeout m \<Rightarrow> Inr (lit ''Key Points:\<newline>'' @ combined_bullets)
                 | _ \<Rightarrow> Inl (ValueError (lit ''Summary merge failed: '' @ exn_str e))),
            [BackendCall MergeCall (merge_prompt combined_bullets)])))"

section \<open>Pipeline orchestrator\<close>

text \<open>Stages 1 and 2 of \<open>generate_summary\<close>, for the chunks of a long text.\<close>

definition chunked_summary :: "env \<Rightarrow> pystr list \<Rightarrow> (exn + pystr) io" where
  "chunked_summary env chunks =
     (case stage1_summaries env chunks of (chunk_summaries, ev1) \<Rightarrow>
      case merge_summaries (backend env) chunk_summaries of (merged_summary, ev2) \<Rightarrow>
        (merged_summary, ev1 @ ev2))"

text \<open>\<open>None\<close> is a run in which \<open>chunk_text\<close> does not return.\<close>

definition generate_summary :: "env \<Rightarrow> pystr \<Rightarrow> (exn + pystr) io option" where
  "generate_summary env text =
     (let cleaned_text = clean_text_for_llm text 24000 in
      if length cleaned_text < 3000
      then Some (generate_single_summary (backend env) cleaned_text)
      else (case chunk_text cleaned_text CHUNK_SIZE_TOKENS CHUNK_OVERLAP_TOKENS of
              None \<Rightarrow> None
            | Some chunks \<Rightarrow> Some (chunked_summary env chunks)))"

text \<open>
  The handler of the three entry points:
  \<^verbatim>\<open>except Exception as e: await update_status(uid, file_id, "error", 0, str(e)); raise\<close>.
\<close>

definition report_error :: "pystr \<Rightarrow> pystr \<Rightarrow> exn \<Rightarrow> event list \<Rightarrow> (exn + unit) io" where
  "report_error firebase_uid file_id e ev =
     (Inl e, ev @ [StatusUpdate firebase_uid file_id (lit ''error'') 0 (exn_str e)])"

text \<open>
  The statements that \<open>process_file\<close>, \<open>process_url\<close> and \<open>process_text\<close> share, from the
  call of \<open>generate_summary\<close> to the final status update; \<open>ev\<close> holds the events so far.
\<close>

definition summarize_and_store ::
  "env \<Rightarrow> pystr \<Rightarrow> pystr \<Rightarrow> event list \<Rightarrow> pystr \<Rightarrow> (exn + unit) io option" where
  "summarize_and_store env firebase_uid file_id ev text =
     (case generate_summary env text of
        None \<Rightarrow> None
      | Some (r, ev1) \<Rightarrow>
          Some (case r of
            Inl e \<Rightarrow> report_error firebase_uid file_id e (ev @ ev1)
          | Inr summary_text \<Rightarrow>
              if summary_text = [] \<or> py_strip summary_text = []
              then report_error firebase_uid file_id
                     (ValueError (lit ''Failed to generate summary'')) (ev @ ev1)
              else (case supabase_insert env file_id firebase_uid summary_text of
                      Some e \<Rightarrow> report_error firebase_uid file_id e (ev @ ev1)
                    | None \<Rightarrow>
                        (Inr (),
                         ev @ ev1 @
                         [Insert file_id firebase_uid summary_text,
                          StatusUpdate firebase_uid file_id (lit ''complete'') 100
                            (lit ''Summary generated successfully!'')]))))"

definition process_text ::
  "env \<Rightarrow> pystr \<Rightarrow> pystr \<Rightarrow> pystr \<Rightarrow> pystr \<Rightarrow> (exn + unit) io option" where
  "process_text env firebase_uid file_id text title =
     summarize_and_store env firebase_uid file_id
       [StatusUpdate firebase_uid file_id (lit ''summarizing'') 50 (lit ''Generating AI summary...'')]
       text"

definition process_url :: "env \<Rightarrow> pystr \<Rightarrow> pystr \<Rightarrow> pystr \<Rightarrow> (exn + unit) io option" where
  "process_url env firebase_uid file_id url =
     (let ev0 = [StatusUpdate firebase_uid file_id (lit ''extracting'') 40
                   (lit ''Extracting content from URL...'')] in
      case extract_url env url of
        Inl e \<Rightarrow> Some (report_error firebase_uid file_id e ev0)
      | Inr extracted_text \<Rightarrow>
          if extracted_text = [] \<or> py_strip extracted_text = []
          then Some (report_error firebase_uid file_id
                 (ValueError (lit ''No content could be extracted from URL'')) ev0)
          else summarize_and_store env firebase_uid file_id
                 (ev0 @ [StatusUpdate firebase_uid file_id (lit ''summarizing'') 70
                           (lit ''Generating AI summary...'')])
                 extracted_text)"

text \<open>The dispatch on \<open>file_type\<close> in \<open>process_file\<close>, after the download.\<close>

definition extract_by_type :: "env \<Rightarrow> pystr \<Rightarrow> pystr \<Rightarrow> pystr \<Rightarrow> exn + pystr" where
  "extract_by_type env file_type file_ext file_bytes =
     (if file_type = lit ''pdf'' then extract_pdf env file_bytes
      else if file_type = lit ''docx'' \<or> file_type = lit ''pptx''
        then extract_tika env file_bytes file_ext
      else if file_type = lit ''image'' then extract_image_ocr env file_bytes
      else if file_type = lit ''audio'' then extract_audio env file_bytes file_ext
      else if file_type = lit ''video'' then extract_video env file_bytes file_ext
      else Inl (ValueError (lit ''Unsupported file type: '' @ file_type)))"

definition process_file ::
  "env \<Rightarrow> pystr \<Rightarrow> pystr \<Rightarrow> pystr \<Rightarrow> pystr \<Rightarrow> (exn + unit) io option" where
  "process_file env firebase_uid file_id storage_path file_type =
     (let ev0 = [StatusUpdate firebase_uid file_id (lit ''extracting'') 40
                   (lit ''Extracting text from '' @ file_type @ lit ''...'')] in
      case download_from_storage env storage_path of
        Inl e \<Rightarrow> Some (report_error firebase_uid file_id e ev0)
      | Inr file_bytes \<Rightarrow>
          (let file_ext = (if 46 \<in> set storage_path then last (py_split 46 storage_path)
                           else file_type) in
           case extract_by_type env file_type file_ext file_bytes of
             Inl e \<Rightarrow> Some (report_error firebase_uid file_id e ev0)
           | Inr extracted_text \<Rightarrow>
               if extracted_text = [] \<or> py_strip extracted_text = []
               then Some (report_error firebase_uid file_id
                      (ValueError (lit ''No text could be extracted from file'')) ev0)
               else summarize_and_store env firebase_uid file_id
                      (ev0 @ [StatusUpdate firebase_uid file_id (lit ''summarizing'') 70
                                (lit ''Generating AI summary...'')])
                      extracted_text))"

text \<open>
  A stub environment: the backend answers every request with \<open>"\<bullet> stub"\<close>, no task
  fails, futures complete in submission order, the insert succeeds, and every extraction
  yields the empty text.
\<close>

definition stub_env :: env where
  "stub_env =
     \<lparr> backend = (\<lambda>site prompt. Inr ([8226] @ lit '' stub'')),
       task_fault = (\<lambda>idx. None),
       completion = (\<lambda>n. [0 ..< n]),
       supabase_insert = (\<lambda>document_id firebase_uid summary_text. None),
       download_from_storage = (\<lambda>storage_path. Inr []),
       extract_pdf = (\<lambda>file_bytes. Inr []),
       extract_tika = (\<lambda>file_bytes file_ext. Inr []),
       extract_image_ocr = (\<lambda>file_bytes. Inr []),
       extract_audio = (\<lambda>file_bytes file_ext. Inr []),
       extract_video = (\<lambda>file_bytes file_ext. Inr []),
       extract_url = (\<lambda>url. Inr []) \<rparr>"

text \<open>The string \<open>sub\<close> occurs in \<open>s\<close>.\<close>

definition py_contains :: "pystr \<Rightarrow> pystr \<Rightarrow> bool" where
  "py_contains s sub \<longleftrightarrow> (\<exists>k\<le>length s. take (length sub) (drop k s) = sub)"


text \<open>
  What the parallel stage stores into slot \<open>idx\<close>: the value of the task, or the task
  sentinel when the task failed.
\<close>

definition slot_value :: "llm_backend \<Rightarrow> (nat \<Rightarrow> exn option) \<Rightarrow> pystr list \<Rightarrow> nat \<Rightarrow> pystr" where
  "slot_value b fault chunks idx =
     (case fault idx of
        None \<Rightarrow> fst (summarize_chunk_sync b (chunks ! idx) idx)
      | Some e \<Rightarrow> task_failure_sentinel idx)"

text \<open>
  Test environments. \<open>echo_env\<close> answers the request for chunk \<open>i\<close> with the bullet and
  the number \<open>i\<close>, and completes the futures in reverse order. In \<open>faulty_env\<close> the
  request for chunk 1 times out and the task of chunk 2 fails. In \<open>timeout_env\<close> the
  single-pass and the merge request run into a read timeout. In
  \<open>connect_timeout_env\<close> the merge request runs into a connect timeout.
\<close>

definition echo_env :: env where
  "echo_env = stub_env
     \<lparr> backend := (\<lambda>site prompt. case site of
                      ChunkCall i \<Rightarrow> Inr ([8226, 32] @ str_nat i)
                    | SingleCall \<Rightarrow> Inr prompt
                    | MergeCall \<Rightarrow> Inr prompt),
       completion := (\<lambda>n. rev [0 ..< n]) \<rparr>"

definition faulty_env :: env where
  "faulty_env = echo_env
     \<lparr> backend := (\<lambda>site prompt. case site of
                      ChunkCall i \<Rightarrow> if i = 1 then Inl (ReadTimeout (lit ''timed out''))
                                     else Inr ([8226, 32] @ str_nat i)
                    | SingleCall \<Rightarrow> Inr prompt
                    | MergeCall \<Rightarrow> Inr prompt),
       task_fault := (\<lambda>idx. if idx = 2 then Some (OtherException (lit ''cancelled'')) else None) \<rparr>"

definition timeout_env :: env where
  "timeout_env = stub_env
     \<lparr> backend := (\<lambda>site prompt. case site of
                      ChunkCall i \<Rightarrow> Inr ([8226] @ lit '' stub'')
                    | SingleCall \<Rightarrow> Inl (ReadTimeout (lit ''timed out''))
                    | MergeCall \<Rightarrow> Inl (ReadTimeout (lit ''timed out''))) \<rparr>"

definition connect_timeout_env :: env where
  "connect_timeout_env = stub_env
     \<lparr> backend := (\<lambda>site prompt. case site of
                      ChunkCall i \<Rightarrow> Inr ([8226] @ lit '' stub'')
                    | SingleCall \<Rightarrow> Inr ([8226] @ lit '' stub'')
                    | MergeCall \<Rightarrow> Inl (ConnectTimeout (lit ''connect timed out''))) \<rparr>"


section \<open>Properties of the string operations\<close>

lemma py_strip_Nil: "py_strip [] = []"
  by (simp add: py_strip_def)

lemma py_strip_ends:
  assumes "py_strip s \<noteq> []"
  shows "\<not> is_space (hd (py_strip s))" and "\<not> is_space (last (py_strip s))"
proof -
  define d where "d = dropWhile is_space s"
  define u where "u = dropWhile is_space (rev d)"
  have t: "py_strip s = rev u" by (simp add: py_strip_def d_def u_def)
  with assms have u: "u \<noteq> []" by simp
  then have d: "d \<noteq> []" by (auto simp: u_def)
  from u have "\<not> is_space (hd u)" unfolding u_def by (rule hd_dropWhile)
  then show "\<not> is_space (last (py_strip s))" using u by (simp add: t last_rev)
  have "last u = last (rev d)"
  proof -
    have "rev d = takeWhile is_space (rev d) @ u" by (simp add: u_def)
    then have "last (rev d) = last (takeWhile is_space (rev d) @ u)" by simp
    also have "\<dots> = last u" using u by simp
    finally show ?thesis by simp
  qed
  also have "\<dots> = hd d" using d by (simp add: last_rev)
  finally have "last u = hd d" .
  moreover have "\<not> is_space (hd d)" using d unfolding d_def by (rule hd_dropWhile)
  ultimately show "\<not> is_space (hd (py_strip s))" using u by (simp add: t hd_rev)
qed

lemma py_strip_id:
  assumes "s \<noteq> []" "\<not> is_space (hd s)" "\<not> is_space (last s)"
  shows "py_strip s = s"
proof -
  have 1: "dropWhile is_space s = s" using assms by (cases s) auto
  have "rev s \<noteq> []" "\<not> is_space (hd (rev s))" using assms by (simp_all add: hd_rev)
  then have 2: "dropWhile is_space (rev s) = rev s" by (cases "rev s") auto
  show ?thesis by (simp add: py_strip_def 1 2)
qed

lemma py_strip_idem: "py_strip (py_strip s) = py_strip s"
proof (cases "py_strip s = []")
  case True then show ?thesis by (simp add: py_strip_Nil)
next
  case False then show ?thesis by (intro py_strip_id py_strip_ends)
qed

lemma set_py_strip: "set (py_strip s) \<subseteq> set s"
proof -
  have dw: "set (dropWhile is_space xs) \<subseteq> set xs" for xs :: pystr
    by (auto dest: set_dropWhileD)
  have "set (py_strip s) = set (dropWhile is_space (rev (dropWhile is_space s)))"
    by (simp add: py_strip_def)
  also have "\<dots> \<subseteq> set (rev (dropWhile is_space s))" by (rule dw)
  also have "\<dots> \<subseteq> set s" using dw [of s] by simp
  finally show ?thesis .
qed

lemma py_split_not_Nil: "py_split sep s \<noteq> []"
  by (induction s) (auto split: list.splits)

lemma py_split_no_sep: "l \<in> set (py_split sep s) \<Longrightarrow> sep \<notin> set l"
proof (induction s arbitrary: l)
  case Nil then show ?case by simp
next
  case (Cons c cs)
  then show ?case by (auto split: if_splits list.splits)
qed

lemma py_split_single: "sep \<notin> set l \<Longrightarrow> py_split sep l = [l]"
  by (induction l) auto

lemma py_split_append: "sep \<notin> set l \<Longrightarrow> py_split sep (l @ sep # r) = l # py_split sep r"
  by (induction l) auto

lemma py_split_join:
  "ls \<noteq> [] \<Longrightarrow> \<forall>l\<in>set ls. sep \<notin> set l \<Longrightarrow> py_split sep (py_join [sep] ls) = ls"
proof (induction "[sep]" ls rule: py_join.induct)
  case 1 then show ?case by simp
next
  case (2 x) then show ?case by (simp add: py_split_single)
next
  case (3 x y ys)
  then show ?case by (simp add: py_split_append)
qed

lemma clean_lines_props:
  assumes "l \<in> set (clean_lines text)"
  shows "l \<noteq> []" "py_strip l = l" "10 \<notin> set l"
proof -
  from assms obtain line where line: "line \<in> set (py_split 10 text)" "py_strip line \<noteq> []"
    and l: "l = py_strip line"
    by (auto simp: clean_lines_def)
  show "l \<noteq> []" using line l by simp
  show "py_strip l = l" by (simp add: l py_strip_idem)
  have "10 \<notin> set line" using line(1) by (rule py_split_no_sep)
  then show "10 \<notin> set l" using set_py_strip [of line] l by auto
qed

lemma clean_lines_fixed:
  assumes "\<forall>l\<in>set ls. l \<noteq> [] \<and> py_strip l = l \<and> 10 \<notin> set l"
  shows "clean_lines (py_join [10] ls) = ls"
proof (cases "ls = []")
  case True
  then show ?thesis by (simp add: clean_lines_def py_strip_Nil)
next
  case False
  then have "py_split 10 (py_join [10] ls) = ls" using assms by (simp add: py_split_join)
  moreover have "filter (\<lambda>line. py_strip line \<noteq> []) ls = ls" using assms by (simp add: filter_id_conv)
  moreover have "map py_strip ls = ls" using assms by (simp add: map_idI)
  ultimately show ?thesis by (simp add: clean_lines_def)
qed

lemma clean_joined_idem: "clean_joined (clean_joined text) = clean_joined text"
  unfolding clean_joined_def
  by (rule arg_cong [where f = "py_join [10]"], rule clean_lines_fixed)
     (auto dest: clean_lines_props)

section \<open>Properties of the normalizer\<close>

lemma length_truncation_marker: "length truncation_marker = 35"
  by (simp add: truncation_marker_def lit_def)

lemma py_slice_prefix: "0 \<le> n \<Longrightarrow> py_slice s 0 n = take (nat n) s"
  by (simp add: py_slice_def py_bound_def min_def)

lemma clean_joined_no_blank: "\<not> has_blank_line (clean_joined text)"
proof (cases "clean_lines text = []")
  case True
  then show ?thesis by (simp add: has_blank_line_def clean_joined_def)
next
  case False
  then have "py_split 10 (clean_joined text) = clean_lines text"
    unfolding clean_joined_def by (intro py_split_join) (auto dest: clean_lines_props(3))
  then show ?thesis
    using clean_lines_props(1,2) by (fastforce simp: has_blank_line_def)
qed

lemma py_split_blank_tl: "[] \<in> set (tl (py_split sep (p @ sep # sep # r)))"
proof (induction p)
  case Nil
  then show ?case by simp
next
  case (Cons a p)
  then show ?case by (auto split: list.splits dest: list.set_sel(2) [rotated])
qed

lemma py_split_blank: "[] \<in> set (py_split sep (p @ sep # sep # r))"
  using py_split_blank_tl [of sep p r] py_split_not_Nil [of sep "p @ sep # sep # r"]
  by (auto dest: list.set_sel(2) [rotated])

lemma marker_blank: "has_blank_line (p @ truncation_marker)"
proof -
  have "truncation_marker = 10 # 10 # lit ''[Content truncated for length...]''"
    by (simp add: truncation_marker_def lit_def)
  then show ?thesis
    using py_split_blank [of 10 p "lit ''[Content truncated for length...]''"]
    by (auto simp: has_blank_line_def py_strip_Nil intro!: bexI [where x = "[]"])
qed

lemma py_split_subset: "l \<in> set (py_split sep s) \<Longrightarrow> set l \<subseteq> set s"
proof (induction s arbitrary: l)
  case Nil then show ?case by simp
next
  case (Cons c cs)
  then show ?case by (fastforce split: if_splits list.splits)
qed

lemma py_strip_spaces: "\<forall>c\<in>set s. is_space c \<Longrightarrow> py_strip s = []"
proof -
  assume "\<forall>c\<in>set s. is_space c"
  then have d: "dropWhile is_space s = []" by (simp add: dropWhile_eq_Nil_conv)
  show ?thesis unfolding py_strip_def d by simp
qed

lemma clean_joined_spaces: "\<forall>c\<in>set text. is_space c \<Longrightarrow> clean_joined text = []"
proof -
  assume a: "\<forall>c\<in>set text. is_space c"
  have "py_strip l = []" if "l \<in> set (py_split 10 text)" for l
    using py_split_subset [OF that] a by (intro py_strip_spaces) auto
  then have "clean_lines text = []" by (auto simp: clean_lines_def filter_empty_conv)
  then show ?thesis by (simp add: clean_joined_def)
qed

lemma clean_joined_single:
  assumes "s \<noteq> []" "10 \<notin> set s" "\<not> is_space (hd s)" "\<not> is_space (last s)"
  shows "clean_joined s = s"
proof -
  have "py_strip s = s" using assms by (intro py_strip_id)
  then have "clean_lines (py_join [10] [s]) = [s]"
    using assms by (intro clean_lines_fixed) simp
  then show ?thesis by (simp add: clean_joined_def)
qed

lemma py_strip_trailing:
  assumes "s \<noteq> []" "\<not> is_space (hd s)" "\<not> is_space (last s)" "\<forall>c\<in>set w. is_space c"
  shows "py_strip (s @ w) = s"
proof -
  have 1: "dropWhile is_space (s @ w) = s @ w" using assms(1,2) by (cases s) auto
  have "dropWhile is_space (rev w @ rev s) = dropWhile is_space (rev s)"
    using assms(4) by (intro dropWhile_append2) simp
  also have "\<dots> = rev s" using assms(1,3) by (cases "rev s") (auto simp: hd_rev)
  finally show ?thesis by (simp add: py_strip_def 1)
qed

lemma not_space_97: "\<not> is_space 97"
  by (simp add: is_space_def)

lemma not_space_98: "\<not> is_space 98"
  by (simp add: is_space_def)

lemma space_32: "is_space 32"
  by (simp add: is_space_def)

lemma truncation_marker_eq:
  "truncation_marker = 10 # 10 # lit ''[Content truncated for length...]''"
  by (simp add: truncation_marker_def lit_def)

lemma truncated_once:
  assumes "0 < n"
  shows "clean_text_for_llm (replicate n 97 @ [32, 98]) (int n + 1) =
         replicate n 97 @ 32 # truncation_marker"
proof -
  let ?t = "replicate n 97 @ [32, 98]"
  have "clean_joined ?t = ?t"
    using assms by (intro clean_joined_single) (auto simp: not_space_97 not_space_98)
  moreover have "nat (int n + 1) = Suc n" by simp
  ultimately show ?thesis
    by (simp add: clean_text_for_llm_def py_slice_prefix)
qed

lemma truncated_twice:
  assumes "0 < n"
  shows "clean_text_for_llm (replicate n 97 @ 32 # truncation_marker) (int n + 1) =
         replicate n 97 @ 10 # truncation_marker"
proof -
  let ?A = "replicate n (97::nat)"
  let ?M = "lit ''[Content truncated for length...]''"
  have A: "?A \<noteq> []" "\<not> is_space (hd ?A)" "\<not> is_space (last ?A)"
    using assms by (simp_all add: not_space_97)
  have M: "py_split 10 ?M = [?M]" "py_strip ?M = ?M" "length ?M = 33"
    by (simp_all add: lit_def py_strip_def is_space_def)
  have "py_split 10 ((?A @ [32]) @ 10 # 10 # ?M) = (?A @ [32]) # py_split 10 (10 # ?M)"
    by (rule py_split_append) auto
  then have split: "py_split 10 (?A @ 32 # truncation_marker) = [?A @ [32], [], ?M]"
    by (simp add: truncation_marker_eq M)
  have s: "py_strip (?A @ [32]) = ?A"
    using A by (intro py_strip_trailing) (simp_all add: space_32)
  have "clean_lines (?A @ 32 # truncation_marker) = [?A, ?M]"
    using A(1) by (simp add: clean_lines_def split s M py_strip_Nil) (simp add: lit_def)
  then have j: "clean_joined (?A @ 32 # truncation_marker) = ?A @ 10 # ?M"
    by (simp add: clean_joined_def)
  have "nat (int n + 1) = Suc n" by simp
  then show ?thesis
    by (simp add: clean_text_for_llm_def j M py_slice_prefix)
qed

text \<open>
  Claim C7, as the code has it. For a cap \<open>max_chars \<ge> 0\<close>: when the joined stripped
  lines fit into the cap, they are the result, which is then at most \<open>max_chars\<close> long
  and has no blank line; otherwise the result is the first \<open>max_chars\<close> characters of
  the joined lines followed by the 35-character truncation marker, so it is
  \<open>max_chars + 35\<close> long and the marker's \<open>"\n\n"\<close> puts a blank line into it.
  A text of whitespace only (the empty text included) yields the empty string.
\<close>

theorem clean_text_for_llm_cap:
  "0 \<le> max_chars \<Longrightarrow>
     (int (length (clean_joined text)) \<le> max_chars \<longrightarrow>
        clean_text_for_llm text max_chars = clean_joined text \<and>
        int (length (clean_text_for_llm text max_chars)) \<le> max_chars \<and>
        \<not> has_blank_line (clean_text_for_llm text max_chars)) \<and>
     (max_chars < int (length (clean_joined text)) \<longrightarrow>
        clean_text_for_llm text max_chars =
          take (nat max_chars) (clean_joined text) @ truncation_marker \<and>
        int (length (clean_text_for_llm text max_chars)) = max_chars + 35 \<and>
        has_blank_line (clean_text_for_llm text max_chars)) \<and>
     ((\<forall>c\<in>set text. is_space c) \<longrightarrow> clean_text_for_llm text max_chars = [])"
proof (intro conjI impI)
  assume m: "0 \<le> max_chars"
  {
    assume le: "int (length (clean_joined text)) \<le> max_chars"
    then show eq: "clean_text_for_llm text max_chars = clean_joined text"
      by (simp add: clean_text_for_llm_def)
    show "int (length (clean_text_for_llm text max_chars)) \<le> max_chars"
      using le eq by simp
    show "\<not> has_blank_line (clean_text_for_llm text max_chars)"
      using eq clean_joined_no_blank by simp
  }
  {
    assume gt: "max_chars < int (length (clean_joined text))"
    then show eq: "clean_text_for_llm text max_chars =
        take (nat max_chars) (clean_joined text) @ truncation_marker"
      using m by (simp add: clean_text_for_llm_def py_slice_prefix)
    show "int (length (clean_text_for_llm text max_chars)) = max_chars + 35"
      using gt m by (simp add: eq length_truncation_marker)
    show "has_blank_line (clean_text_for_llm text max_chars)"
      by (simp add: eq marker_blank)
  }
  {
    assume "\<forall>c\<in>set text. is_space c"
    then have "clean_joined text = []" by (rule clean_joined_spaces)
    then show "clean_text_for_llm text max_chars = []"
      using m by (simp add: clean_text_for_llm_def)
  }
qed

theorem clean_text_for_llm_cap_witness:
  "(0::int) \<le> 2 \<and> 2 < int (length (clean_joined (lit ''abcd'')))
   \<and> clean_text_for_llm (lit ''abcd'') 2 = lit ''ab\<newline>\<newline>[Content truncated for length...]''
   \<and> int (length (clean_text_for_llm (lit ''abcd'') 2)) = 37
   \<and> has_blank_line (clean_text_for_llm (lit ''abcd'') 2)
   \<and> int (length (clean_joined (lit '' a b \<newline>\<newline> c''))) \<le> 24000
   \<and> clean_text_for_llm (lit '' a b \<newline>\<newline> c'') 24000 = lit ''a b\<newline>c''
   \<and> \<not> has_blank_line (clean_text_for_llm (lit '' a b \<newline>\<newline> c'') 24000)
   \<and> clean_text_for_llm (lit '' \<newline> '') 2 = []
   \<and> clean_text_for_llm [] 2 = []"
proof -
  have h: "(0::int) \<le> 2" and h': "(0::int) \<le> 24000" by simp_all
  have g: "clean_joined (lit ''abcd'') = lit ''abcd''"
    by (simp add: clean_joined_def clean_lines_def lit_def py_strip_def is_space_def)
  have l: "2 < int (length (clean_joined (lit ''abcd'')))"
    by (simp add: g) (simp add: lit_def)
  from clean_text_for_llm_cap [OF h, of "lit ''abcd''"] l
  have t: "clean_text_for_llm (lit ''abcd'') 2 = take (nat 2) (clean_joined (lit ''abcd'')) @ truncation_marker"
    "int (length (clean_text_for_llm (lit ''abcd'') 2)) = 2 + 35"
    "has_blank_line (clean_text_for_llm (lit ''abcd'') 2)"
    by blast+
  from t(1) have t1: "clean_text_for_llm (lit ''abcd'') 2 =
      lit ''ab\<newline>\<newline>[Content truncated for length...]''"
    by (simp add: g) (simp add: lit_def truncation_marker_def)
  from t(2) have t2: "int (length (clean_text_for_llm (lit ''abcd'') 2)) = 37" by simp
  have g2: "clean_joined (lit '' a b \<newline>\<newline> c'') = lit ''a b\<newline>c''"
    by (simp add: clean_joined_def clean_lines_def lit_def py_strip_def is_space_def)
  have l2: "int (length (clean_joined (lit '' a b \<newline>\<newline> c''))) \<le> 24000"
    by (simp add: g2) (simp add: lit_def)
  from clean_text_for_llm_cap [OF h', of "lit '' a b \<newline>\<newline> c''"] l2
  have u: "clean_text_for_llm (lit '' a b \<newline>\<newline> c'') 24000 = clean_joined (lit '' a b \<newline>\<newline> c'')"
    "\<not> has_blank_line (clean_text_for_llm (lit '' a b \<newline>\<newline> c'') 24000)"
    by blast+
  from u(1) have u1: "clean_text_for_llm (lit '' a b \<newline>\<newline> c'') 24000 = lit ''a b\<newline>c''"
    by (simp add: g2)
  have w: "\<forall>c\<in>set (lit '' \<newline> ''). is_space c" by (simp add: lit_def is_space_def)
  from clean_text_for_llm_cap [OF h, of "lit '' \<newline> ''"] w
  have w1: "clean_text_for_llm (lit '' \<newline> '') 2 = []" by blast
  have "\<forall>c\<in>set ([]::pystr). is_space c" by simp
  with clean_text_for_llm_cap [OF h, of "[]"] have e: "clean_text_for_llm [] 2 = []" by blast
  from h l t1 t2 t(3) l2 u1 u(2) w1 e show ?thesis by blast
qed

text \<open>
  The claim as stated fails: with the default cap of 24000, a text of 24001 letters
  yields 24035 characters with a blank line before the marker; and for a negative cap
  the empty text yields the marker.
\<close>

theorem clean_text_for_llm_cap_counterexample:
  "int (length (clean_text_for_llm (replicate 24001 97) 24000)) = 24035
   \<and> has_blank_line (clean_text_for_llm (replicate 24001 97) 24000)
   \<and> clean_text_for_llm [] (- 1) = truncation_marker"
proof -
  have "clean_joined (replicate 24001 97) = replicate 24001 97"
    by (rule clean_joined_single) (simp_all add: not_space_97)
  then have "clean_text_for_llm (replicate 24001 97) 24000 = replicate 24000 97 @ truncation_marker"
    by (simp add: clean_text_for_llm_def py_slice_prefix)
  moreover have "clean_text_for_llm [] (- 1) = truncation_marker"
    by (simp add: clean_text_for_llm_def clean_joined_def clean_lines_def py_strip_def
        py_slice_def py_bound_def)
  ultimately show ?thesis
    by (simp add: length_truncation_marker marker_blank)
qed

text \<open>
  Claim C8, as the code has it: normalizing is idempotent whenever the joined stripped
  lines fit into the cap, that is, whenever nothing is truncated.
\<close>

theorem clean_text_for_llm_idempotent:
  "int (length (clean_joined text)) \<le> max_chars \<Longrightarrow>
     clean_text_for_llm (clean_text_for_llm text max_chars) max_chars =
     clean_text_for_llm text max_chars"
  by (simp add: clean_text_for_llm_def clean_joined_idem)

theorem clean_text_for_llm_idempotent_witness:
  "int (length (clean_joined (lit '' a b \<newline>\<newline> c''))) \<le> 24000 \<and>
   clean_text_for_llm (lit '' a b \<newline>\<newline> c'') 24000 = lit ''a b\<newline>c'' \<and>
   clean_text_for_llm (clean_text_for_llm (lit '' a b \<newline>\<newline> c'') 24000) 24000 = lit ''a b\<newline>c''"
proof -
  have g: "clean_joined (lit '' a b \<newline>\<newline> c'') = lit ''a b\<newline>c''"
    by (simp add: clean_joined_def clean_lines_def lit_def py_strip_def is_space_def)
  have l: "int (length (clean_joined (lit '' a b \<newline>\<newline> c''))) \<le> 24000"
    by (simp add: g) (simp add: lit_def)
  have c: "clean_text_for_llm (lit '' a b \<newline>\<newline> c'') 24000 = lit ''a b\<newline>c''"
    using l by (simp add: clean_text_for_llm_def g)
  from clean_text_for_llm_idempotent [OF l] c l show ?thesis by simp
qed

text \<open>
  It is not idempotent on every output: 23999 letters followed by \<open>" b"\<close> are cut after
  the space, and normalizing the result again replaces that space by a newline.
\<close>

theorem clean_text_for_llm_idempotent_counterexample:
  "clean_text_for_llm (clean_text_for_llm (replicate 23999 97 @ [32, 98]) 24000) 24000 \<noteq>
   clean_text_for_llm (replicate 23999 97 @ [32, 98]) 24000"
  using truncated_once [of 23999] truncated_twice [of 23999] by simp


section \<open>Properties of the chunk splitter\<close>

lemma py_bound_nonneg: "0 \<le> i \<Longrightarrow> i \<le> int n \<Longrightarrow> py_bound n i = nat i"
  by (simp add: py_bound_def)

lemma find_Some_set: "List.find P xs = Some x \<Longrightarrow> x \<in> set xs"
  by (induction xs) (auto split: if_splits)

lemma py_rfind_range:
  "py_rfind s sub i j = - 1 \<or>
   (int (py_bound (length s) i) \<le> py_rfind s sub i j \<and>
    py_rfind s sub i j + int (length sub) \<le> int (py_bound (length s) j))"
proof (cases "List.find (\<lambda>k. take (length sub) (drop k s) = sub)
                (rev [py_bound (length s) i ..< Suc (py_bound (length s) j) - length sub])")
  case None
  then show ?thesis by (simp add: py_rfind_def)
next
  case (Some k)
  then have "k \<in> set (rev [py_bound (length s) i ..< Suc (py_bound (length s) j) - length sub])"
    by (rule find_Some_set)
  then have "py_bound (length s) i \<le> k" "k + length sub \<le> py_bound (length s) j"
    by auto
  moreover have "py_rfind s sub i j = int k" using Some by (simp add: py_rfind_def)
  ultimately show ?thesis by simp
qed

lemma py_rfind_none:
  assumes "sub \<noteq> []" "hd sub \<notin> set s"
  shows "py_rfind s sub i j = - 1"
proof -
  have "take (length sub) (drop k s) \<noteq> sub" for k
  proof
    assume e: "take (length sub) (drop k s) = sub"
    have "hd sub \<in> set sub" using assms(1) by simp
    then have "hd sub \<in> set (take (length sub) (drop k s))" using e by simp
    then have "hd sub \<in> set s" by (meson in_set_dropD in_set_takeD)
    then show False using assms(2) by simp
  qed
  then have "List.find (\<lambda>k. take (length sub) (drop k s) = sub) xs = None" for xs
    by (simp add: find_None_iff)
  then show ?thesis by (simp add: py_rfind_def)
qed

lemma chunk_end_range:
  assumes "200 \<le> cc" "0 \<le> start" 
  shows "start + cc - 199 \<le> chunk_end text cc start \<and> chunk_end text cc start \<le> start + cc"
proof (cases "start + cc < int (length text)")
  case False
  then show ?thesis by (simp add: chunk_end_def)
next
  case True
  let ?ss = "start + cc - 200"
  let ?r = "py_rfind text (lit ''. '') ?ss (start + cc)"
  have ss: "max (start + cc - 200) start = ?ss" using assms by simp
  have b1: "py_bound (length text) ?ss = nat ?ss"
    using assms True by (intro py_bound_nonneg) auto
  have b2: "py_bound (length text) (start + cc) = nat (start + cc)"
    using assms True by (intro py_bound_nonneg) auto
  have len: "length (lit ''. '') = 2" by (simp add: lit_def)
  from py_rfind_range [of "text" "lit ''. ''" "?ss" "start + cc"]
  have r: "?r = - 1 \<or> (?ss \<le> ?r \<and> ?r + 2 \<le> start + cc)"
    using assms by (simp add: b1 b2 len)
  have e: "chunk_end text cc start = (if ?r > start then ?r + 1 else start + cc)"
    using True by (simp add: chunk_end_def Let_def ss)
  show ?thesis using r assms unfolding e by auto
qed

lemma chunk_step_progress:
  assumes "0 \<le> oc" "oc + 200 \<le> cc" "0 \<le> start" "start < int (length text)"
  shows "start < chunk_next text oc (chunk_end text cc start)"
    and "chunk_next text oc (chunk_end text cc start) \<le> int (length text)"
    and "chunk_next text oc (chunk_end text cc start) \<le> chunk_end text cc start"
proof -
  have "200 \<le> cc" using assms by simp
  from chunk_end_range [OF this assms(3), of "text"]
  have r: "start + cc - 199 \<le> chunk_end text cc start" by simp
  show "start < chunk_next text oc (chunk_end text cc start)"
    using r assms by (simp add: chunk_next_def)
  show "chunk_next text oc (chunk_end text cc start) \<le> int (length text)"
    using assms by (simp add: chunk_next_def)
  show "chunk_next text oc (chunk_end text cc start) \<le> chunk_end text cc start"
    using assms by (simp add: chunk_next_def)
qed

lemma chunk_loop_returns:
  assumes "0 \<le> oc" "oc + 200 \<le> cc"
  shows "0 \<le> start \<Longrightarrow> \<exists>cs. chunk_loop text cc oc start chunks = Some cs"
proof (induction "nat (int (length text) - start)" arbitrary: start chunks rule: less_induct)
  case less
  show ?case
  proof (cases "start < int (length text)")
    case False
    then show ?thesis by (subst chunk_loop.simps) simp
  next
    case True
    let ?n = "chunk_next text oc (chunk_end text cc start)"
    have p: "start < ?n" "?n \<le> int (length text)"
      using chunk_step_progress [OF assms less.prems True] by simp_all
    then have "nat (int (length text) - ?n) < nat (int (length text) - start)" "0 \<le> ?n"
      using less.prems True by auto
    from less.hyps [OF this]
    obtain cs where "chunk_loop text cc oc ?n (chunk_emit text start (chunk_end text cc start) chunks) = Some cs"
      by blast
    then show ?thesis using True by (subst chunk_loop.simps) simp
  qed
qed

lemma takeWhile_prefix_holds: "i < length (takeWhile P xs) \<Longrightarrow> P (xs ! i)"
  by (metis nth_mem set_takeWhileD takeWhile_nth)

lemma py_strip_window:
  "py_strip s =
     take (length (dropWhile is_space s) - length (takeWhile is_space (rev (dropWhile is_space s))))
       (drop (length (takeWhile is_space s)) s)"
proof -
  let ?d = "dropWhile is_space s"
  let ?k2 = "length (takeWhile is_space (rev ?d))"
  have "py_strip s = rev (drop ?k2 (rev ?d))"
    by (simp add: py_strip_def dropWhile_eq_drop [symmetric])
  also have "\<dots> = take (length ?d - ?k2) ?d" by (simp add: rev_drop)
  also have "?d = drop (length (takeWhile is_space s)) s" by (rule dropWhile_eq_drop)
  finally show ?thesis by (simp add: dropWhile_eq_drop [symmetric])
qed

lemma py_strip_keeps:
  assumes "q < length s" "\<not> is_space (s ! q)"
  shows "length (takeWhile is_space s) \<le> q"
    and "q - length (takeWhile is_space s)
         < length (dropWhile is_space s) - length (takeWhile is_space (rev (dropWhile is_space s)))"
proof -
  let ?k = "length (takeWhile is_space s)"
  let ?d = "dropWhile is_space s"
  let ?k2 = "length (takeWhile is_space (rev ?d))"
  show k: "?k \<le> q"
  proof (rule ccontr)
    assume "\<not> ?k \<le> q"
    then have "q < ?k" by simp
    then have "is_space (s ! q)" by (rule takeWhile_prefix_holds)
    with assms show False by simp
  qed
  have d: "?d = drop ?k s" by (rule dropWhile_eq_drop)
  have len: "length ?d = length s - ?k" by (simp add: d)
  show "q - ?k < length ?d - ?k2"
  proof (rule ccontr)
    assume n: "\<not> q - ?k < length ?d - ?k2"
    let ?j = "q - ?k"
    have j: "?j < length ?d" using assms(1) k by (simp add: len)
    have i: "length ?d - Suc ?j < ?k2" using n j by arith
    then have "is_space (rev ?d ! (length ?d - Suc ?j))" by (rule takeWhile_prefix_holds)
    moreover have "rev ?d ! (length ?d - Suc ?j) = ?d ! ?j"
      using j by (simp add: rev_nth)
    moreover have "?d ! ?j = s ! q" using k assms(1) by (simp add: d)
    ultimately show False using assms(2) by simp
  qed
qed

lemma in_chunk_strip:
  assumes "a \<le> p" "p < b" "b \<le> length text" "\<not> is_space (text ! p)"
  shows "in_chunk text (py_strip (take (b - a) (drop a text))) p"
proof -
  let ?s = "take (b - a) (drop a text)"
  let ?k = "length (takeWhile is_space ?s)"
  let ?d = "dropWhile is_space ?s"
  let ?m = "length ?d - length (takeWhile is_space (rev ?d))"
  have ls: "length ?s = b - a" using assms by simp
  have q: "p - a < length ?s" using assms by simp
  have sq: "?s ! (p - a) = text ! p" using assms by simp
  from py_strip_keeps [OF q] sq assms(4)
  have k: "?k \<le> p - a" and m: "p - a - ?k < ?m" by simp_all
  have d: "?d = drop ?k ?s" by (rule dropWhile_eq_drop)
  have ld: "length ?d = b - a - ?k" unfolding d using ls by simp
  have c: "py_strip ?s = take ?m (drop ?k ?s)" by (rule py_strip_window)
  have m_le: "?m \<le> b - a - ?k" using ld by simp
  have "drop ?k ?s = take (b - a - ?k) (drop (a + ?k) text)"
    by (simp add: drop_take add.commute)
  then have c2: "py_strip ?s = take ?m (drop (a + ?k) text)"
    using m_le by (simp add: c min_def)
  have "length (drop (a + ?k) text) \<ge> b - a - ?k" using assms by simp
  then have lc: "length (py_strip ?s) = ?m" using m_le by (simp add: c2)
  have "a + ?k \<le> p" using k assms(1) by arith
  moreover have "p < a + ?k + ?m" using m k assms(1) by arith
  moreover have "take (length (py_strip ?s)) (drop (a + ?k) text) = py_strip ?s"
    by (simp add: lc) (simp add: c2 [symmetric])
  ultimately show ?thesis
    unfolding in_chunk_def lc by (intro exI [where x = "a + ?k"]) (simp add: lc)
qed

lemma in_chunk_nonempty: "in_chunk text c p \<Longrightarrow> c \<noteq> []"
  by (auto simp: in_chunk_def)

lemma chunk_emit_mono: "set chunks \<subseteq> set (chunk_emit text start e chunks)"
  by (auto simp: chunk_emit_def Let_def)

lemma py_slice_window:
  assumes "0 \<le> start" "start \<le> int (length text)" "0 \<le> e"
  shows "py_slice text start e = take (min (length text) (nat e) - nat start) (drop (nat start) text)"
  using assms by (simp add: py_slice_def py_bound_def Let_def)

lemma chunk_emit_covers:
  assumes "0 \<le> start" "start \<le> int p" "int p < e" "p < length text" "\<not> is_space (text ! p)"
  shows "\<exists>c\<in>set (chunk_emit text start e chunks). in_chunk text c p"
proof -
  let ?b = "min (length text) (nat e)"
  have sl: "py_slice text start e = take (?b - nat start) (drop (nat start) text)"
    using assms by (intro py_slice_window) auto
  have "in_chunk text (py_strip (take (?b - nat start) (drop (nat start) text))) p"
    using assms by (intro in_chunk_strip) auto
  then have ic: "in_chunk text (py_strip (py_slice text start e)) p" by (simp add: sl)
  then have "py_strip (py_slice text start e) \<noteq> []" by (rule in_chunk_nonempty)
  then have "py_strip (py_slice text start e) \<in> set (chunk_emit text start e chunks)"
    by (simp add: chunk_emit_def Let_def)
  with ic show ?thesis by blast
qed

lemma chunk_loop_covers:
  assumes "0 \<le> oc" "oc + 200 \<le> cc"
  shows "0 \<le> start \<Longrightarrow>
    (\<forall>p<length text. int p < start \<longrightarrow> \<not> is_space (text ! p) \<longrightarrow> (\<exists>c\<in>set chunks. in_chunk text c p)) \<Longrightarrow>
    \<exists>cs. chunk_loop text cc oc start chunks = Some cs \<and>
      (\<forall>p<length text. \<not> is_space (text ! p) \<longrightarrow> (\<exists>c\<in>set cs. in_chunk text c p))"
proof (induction "nat (int (length text) - start)" arbitrary: start chunks rule: less_induct)
  case less
  show ?case
  proof (cases "start < int (length text)")
    case False
    then have "chunk_loop text cc oc start chunks = Some chunks"
      by (subst chunk_loop.simps) simp
    moreover have "\<forall>p<length text. \<not> is_space (text ! p) \<longrightarrow> (\<exists>c\<in>set chunks. in_chunk text c p)"
      using less.prems(2) False by auto
    ultimately show ?thesis by simp
  next
    case True
    let ?e = "chunk_end text cc start"
    let ?n = "chunk_next text oc ?e"
    let ?chunks = "chunk_emit text start ?e chunks"
    have p: "start < ?n" "?n \<le> int (length text)" "?n \<le> ?e"
      using chunk_step_progress [OF assms less.prems(1) True] by simp_all
    then have m: "nat (int (length text) - ?n) < nat (int (length text) - start)" and n0: "0 \<le> ?n"
      using less.prems True by auto
    have inv: "\<forall>p<length text. int p < ?n \<longrightarrow> \<not> is_space (text ! p) \<longrightarrow>
        (\<exists>c\<in>set ?chunks. in_chunk text c p)"
    proof (intro allI impI)
      fix p assume a: "p < length text" "int p < ?n" "\<not> is_space (text ! p)"
      show "\<exists>c\<in>set ?chunks. in_chunk text c p"
      proof (cases "int p < start")
        case True
        then obtain c where "c \<in> set chunks" "in_chunk text c p"
          using less.prems(2) a by blast
        then show ?thesis using chunk_emit_mono [of chunks "text" start ?e] by blast
      next
        case False
        then show ?thesis
          using a p(3) less.prems(1) by (intro chunk_emit_covers) auto
      qed
    qed
    from less.hyps [OF m n0 inv]
    obtain cs where "chunk_loop text cc oc ?n ?chunks = Some cs"
      "\<forall>p<length text. \<not> is_space (text ! p) \<longrightarrow> (\<exists>c\<in>set cs. in_chunk text c p)"
      by blast
    then show ?thesis using True by (subst chunk_loop.simps) simp
  qed
qed

lemma py_strip_leading:
  assumes "s \<noteq> []" "\<not> is_space (hd s)" "\<not> is_space (last s)" "\<forall>c\<in>set w. is_space c"
  shows "py_strip (w @ s) = s"
proof -
  have "dropWhile is_space (w @ s) = dropWhile is_space s"
    using assms(4) by (intro dropWhile_append2) simp
  also have "\<dots> = s" using assms(1,2) by (cases s) auto
  finally have 1: "dropWhile is_space (w @ s) = s" .
  have 2: "dropWhile is_space (rev s) = rev s"
    using assms(1,3) by (cases "rev s") (auto simp: hd_rev)
  show ?thesis by (simp add: py_strip_def 1 2)
qed

lemma in_chunk_single: "in_chunk text [x] p \<Longrightarrow> p < length text \<Longrightarrow> text ! p = x"
proof -
  assume a: "in_chunk text [x] p" and l: "p < length text"
  then obtain s where s: "s \<le> p" "p < s + 1" "take 1 (drop s text) = [x]"
    by (auto simp: in_chunk_def)
  then have sp: "s = p" by simp
  have "take 1 (drop p text) = [x]" using s(3) unfolding sp .
  moreover have "drop p text = text ! p # drop (Suc p) text" using l by (simp add: Cons_nth_drop_Suc)
  ultimately show ?thesis by simp
qed

lemma sparse_text_length: "length sparse_text = 9002"
  by (simp add: sparse_text_def)

lemma sparse_text_rfind: "py_rfind sparse_text (lit ''. '') i j = - 1"
  by (rule py_rfind_none) (simp_all add: lit_def sparse_text_def)

lemma sparse_text_chunks: "chunk_loop sparse_text 4000 300 0 [] = Some [[97], [98]]"
proof -
  have e1: "chunk_end sparse_text 4000 0 = 4000"
    and e2: "chunk_end sparse_text 4000 3700 = 7700"
    and e3: "chunk_end sparse_text 4000 7400 = 11400"
    by (simp_all add: chunk_end_def sparse_text_length sparse_text_rfind)
  have n1: "chunk_next sparse_text 300 4000 = 3700"
    and n2: "chunk_next sparse_text 300 7700 = 7400"
    and n3: "chunk_next sparse_text 300 11400 = 9002"
    by (simp_all add: chunk_next_def sparse_text_length)
  have s1: "py_slice sparse_text 0 4000 = 97 # replicate 3999 32"
    and s2: "py_slice sparse_text 3700 7700 = replicate 4000 32"
    and s3: "py_slice sparse_text 7400 11400 = replicate 1601 32 @ [98]"
    by (simp_all add: py_slice_def py_bound_def sparse_text_def)
  have p1: "py_strip (97 # replicate 3999 32) = [97]"
    using py_strip_trailing [of "[97]" "replicate 3999 32"] by (simp add: is_space_def)
  have p2: "py_strip (replicate 4000 32) = []"
    by (rule py_strip_spaces) (simp add: is_space_def)
  have p3: "py_strip (replicate 1601 32 @ [98]) = [98]"
    by (rule py_strip_leading) (simp_all add: is_space_def)
  have m1: "chunk_emit sparse_text 0 4000 [] = [[97]]"
    and m2: "chunk_emit sparse_text 3700 7700 [[97]] = [[97]]"
    and m3: "chunk_emit sparse_text 7400 11400 [[97]] = [[97], [98]]"
    by (simp_all add: chunk_emit_def Let_def s1 s2 s3 p1 p2 p3)
  have "chunk_loop sparse_text 4000 300 0 [] = chunk_loop sparse_text 4000 300 3700 [[97]]"
    by (subst chunk_loop.simps) (simp add: sparse_text_length e1 n1 m1)
  also have "\<dots> = chunk_loop sparse_text 4000 300 7400 [[97]]"
    by (subst chunk_loop.simps) (simp add: sparse_text_length e2 n2 m2)
  also have "\<dots> = chunk_loop sparse_text 4000 300 9002 [[97], [98]]"
    by (subst chunk_loop.simps) (simp add: sparse_text_length e3 n3 m3)
  also have "\<dots> = Some [[97], [98]]"
    by (subst chunk_loop.simps) (simp add: sparse_text_length)
  finally show ?thesis .
qed

lemma sparse_text_normalized: "clean_text_for_llm sparse_text 24000 = sparse_text"
proof -
  have "clean_joined sparse_text = sparse_text"
    by (rule clean_joined_single) (simp_all add: sparse_text_def is_space_def)
  then show ?thesis by (simp add: clean_text_for_llm_def sparse_text_length)
qed

lemma chunk_loop_fixed_start_aux:
  assumes "s0 < int (length t0)" "chunk_next t0 oc0 (chunk_end t0 cc0 s0) = s0"
  shows "chunk_loop t cc oc start chunks = Some y \<Longrightarrow>
     \<not> (t = t0 \<and> cc = cc0 \<and> oc = oc0 \<and> start = s0)"
proof (erule chunk_loop.raw_induct
    [where P = "\<lambda>t cc oc start chunks y. \<not> (t = t0 \<and> cc = cc0 \<and> oc = oc0 \<and> start = s0)",
      rotated])
  fix f :: "pystr \<Rightarrow> int \<Rightarrow> int \<Rightarrow> int \<Rightarrow> pystr list \<Rightarrow> pystr list option"
  fix t cc oc start chunks y
  assume IH: "\<And>t cc oc start chunks y. f t cc oc start chunks = Some y \<Longrightarrow>
     \<not> (t = t0 \<and> cc = cc0 \<and> oc = oc0 \<and> start = s0)"
  assume step: "(if start < int (length t)
      then f t cc oc (chunk_next t oc (chunk_end t cc start))
             (chunk_emit t start (chunk_end t cc start) chunks)
      else Some chunks) = Some y"
  show "\<not> (t = t0 \<and> cc = cc0 \<and> oc = oc0 \<and> start = s0)"
  proof
    assume a: "t = t0 \<and> cc = cc0 \<and> oc = oc0 \<and> start = s0"
    then have v: "t = t0" "cc = cc0" "oc = oc0" "start = s0" by simp_all
    from step have "f t0 cc0 oc0 s0 (chunk_emit t0 s0 (chunk_end t0 cc0 s0) chunks) = Some y"
      unfolding v assms(2) using assms(1) by simp
    from IH [OF this] show False by simp
  qed
qed

lemma chunk_loop_fixed_start:
  assumes "s0 < int (length t0)" "chunk_next t0 oc0 (chunk_end t0 cc0 s0) = s0"
  shows "chunk_loop t0 cc0 oc0 s0 chunks = None"
  using chunk_loop_fixed_start_aux [OF assms, of t0 cc0 oc0 s0 chunks]
  by (cases "chunk_loop t0 cc0 oc0 s0 chunks") auto

lemma chunk_text_stall_equal: "chunk_text (lit ''abcdefgh'') 1 1 = None"
proof -
  have "chunk_end (lit ''abcdefgh'') 4 0 = 4"
    by (simp add: chunk_end_def lit_def py_rfind_def py_bound_def)
  moreover have "chunk_next (lit ''abcdefgh'') 4 4 = 0"
    by (simp add: chunk_next_def lit_def)
  moreover have "(0::int) < int (length (lit ''abcdefgh''))" by (simp add: lit_def)
  ultimately have "chunk_loop (lit ''abcdefgh'') 4 4 0 [] = None"
    by (intro chunk_loop_fixed_start) simp_all
  then show ?thesis by (simp add: chunk_text_def CHARS_PER_TOKEN_def)
qed

text \<open>An overlap below the chunk size is not enough: a sentence end early in a chunk
  moves the next start before the current one.\<close>

lemma chunk_text_stall_sentence: "chunk_text (lit ''a. bcdefghijklm'') 2 1 = None"
proof -
  let ?t = "lit ''a. bcdefghijklm''"
  have len: "length ?t = 15" by (simp add: lit_def)
  have e1: "chunk_end ?t 8 0 = 2"
    by code_simp
  have e2: "chunk_end ?t 8 (- 2) = 0"
    by (simp add: chunk_end_def len py_rfind_def py_bound_def)
  have e3: "chunk_end ?t 8 (- 4) = 0"
    by (simp add: chunk_end_def len py_rfind_def py_bound_def)
  have n1: "chunk_next ?t 4 2 = - 2" and n2: "chunk_next ?t 4 0 = - 4"
    by (simp_all add: chunk_next_def len)
  have stall: "chunk_loop ?t 8 4 (- 4) chunks = None" for chunks
    by (rule chunk_loop_fixed_start) (simp_all add: len e3 n2)
  have "chunk_loop ?t 8 4 0 [] = chunk_loop ?t 8 4 (- 2) (chunk_emit ?t 0 2 [])"
    by (subst chunk_loop.simps) (simp add: len e1 n1)
  also have "\<dots> = chunk_loop ?t 8 4 (- 4) (chunk_emit ?t (- 2) 0 (chunk_emit ?t 0 2 []))"
    by (subst chunk_loop.simps) (simp add: len e2 n2)
  also have "\<dots> = None" by (rule stall)
  finally show ?thesis by (simp add: chunk_text_def CHARS_PER_TOKEN_def)
qed

lemma no_match_at:
  assumes "sub \<noteq> []" "j < length s \<longrightarrow> s ! j \<noteq> hd sub"
  shows "take (length sub) (drop j s) \<noteq> sub"
proof (cases "j < length s")
  case False
  then show ?thesis using assms(1) by auto
next
  case True
  then have d: "drop j s = s ! j # drop (Suc j) s" by (simp add: Cons_nth_drop_Suc)
  obtain x xs where sub: "sub = x # xs" using assms(1) by (cases sub) auto
  show ?thesis using assms(2) True unfolding d sub by simp
qed

lemma py_rfind_none_between:
  assumes "0 \<le> i" "i \<le> j" "j \<le> int (length s)"
    and "\<forall>k. nat i \<le> k \<and> k + length sub \<le> nat j \<longrightarrow> take (length sub) (drop k s) \<noteq> sub"
  shows "py_rfind s sub i j = - 1"
proof -
  have b: "py_bound (length s) i = nat i" "py_bound (length s) j = nat j"
    using assms(1-3) by (simp_all add: py_bound_def)
  have "List.find (\<lambda>k. take (length sub) (drop k s) = sub)
          (rev [nat i ..< Suc (nat j) - length sub]) = None"
    using assms(4) by (auto simp: find_None_iff)
  then show ?thesis by (simp add: py_rfind_def b)
qed

lemma find_append_none:
  "List.find P xs = None \<Longrightarrow> List.find P (xs @ ys) = List.find P ys"
  by (induction xs) (auto split: if_splits)

lemma py_rfind_last:
  assumes "0 \<le> i" "i \<le> j" "j \<le> int (length s)"
    and "nat i \<le> k" "k + length sub \<le> nat j"
    and "take (length sub) (drop k s) = sub"
    and "\<forall>l. k < l \<and> l + length sub \<le> nat j \<longrightarrow> take (length sub) (drop l s) \<noteq> sub"
  shows "py_rfind s sub i j = int k"
proof -
  let ?P = "\<lambda>k. take (length sub) (drop k s) = sub"
  define n where "n = Suc (nat j) - length sub"
  have b: "py_bound (length s) i = nat i" "py_bound (length s) j = nat j"
    using assms(1-3) by (simp_all add: py_bound_def)
  have kn: "k < n" using assms(5) unfolding n_def by arith
  have "[nat i ..< n] = [nat i ..< k] @ [k ..< n]"
    using upt_add_eq_append [of "nat i" k "n - k"] assms(4) kn by simp
  also have "[k ..< n] = k # [Suc k ..< n]" using kn by (simp add: upt_conv_Cons)
  finally have r: "rev [nat i ..< n] = rev [Suc k ..< n] @ k # rev [nat i ..< k]" by simp
  have "\<forall>l\<in>set (rev [Suc k ..< n]). \<not> ?P l"
    using assms(7) unfolding n_def by auto
  then have "List.find ?P (rev [Suc k ..< n]) = None"
    by (simp add: find_None_iff)
  then have "List.find ?P (rev [nat i ..< n]) = Some k"
    unfolding r using assms(6) by (simp add: find_append_none)
  then show ?thesis unfolding py_rfind_def b Let_def n_def by simp
qed

lemma sentence_text_length: "length sentence_text = 8902"
  by (simp add: sentence_text_def)

lemma sentence_text_nth_late: "3900 < j \<Longrightarrow> j < 8902 \<Longrightarrow> sentence_text ! j \<noteq> 46"
  by (auto simp: sentence_text_def nth_append nth_Cons')

lemma sentence_text_dot: "take (Suc (Suc 0)) (drop 3900 sentence_text) = [46, 32]"
  by (simp add: sentence_text_def)

lemma sentence_text_rfind1: "py_rfind sentence_text (lit ''. '') 3800 4000 = 3900"
proof -
  have l: "lit ''. '' = [46, 32]" by (simp add: lit_def)
  have "py_rfind sentence_text [46, 32] 3800 4000 = int 3900"
  proof (rule py_rfind_last)
    show "\<forall>l. 3900 < l \<and> l + length [46, 32 :: nat] \<le> nat 4000 \<longrightarrow>
        take (length [46, 32 :: nat]) (drop l sentence_text) \<noteq> [46, 32]"
    proof (intro allI impI)
      fix l :: nat assume a: "3900 < l \<and> l + length [46, 32 :: nat] \<le> nat 4000"
      then have "l < 8902" by simp
      with a have "sentence_text ! l \<noteq> 46" by (intro sentence_text_nth_late) simp_all
      then show "take (length [46, 32 :: nat]) (drop l sentence_text) \<noteq> [46, 32]"
        by (intro no_match_at) simp_all
    qed
  qed (simp_all add: sentence_text_length sentence_text_dot)
  then show ?thesis by (simp add: l)
qed

lemma sentence_text_rfind2: "py_rfind sentence_text (lit ''. '') 7401 7601 = - 1"
proof -
  have l: "lit ''. '' = [46, 32]" by (simp add: lit_def)
  have "py_rfind sentence_text [46, 32] 7401 7601 = - 1"
  proof (rule py_rfind_none_between)
    show "\<forall>k. nat 7401 \<le> k \<and> k + length [46, 32 :: nat] \<le> nat 7601 \<longrightarrow>
        take (length [46, 32 :: nat]) (drop k sentence_text) \<noteq> [46, 32]"
    proof (intro allI impI)
      fix k :: nat assume a: "nat 7401 \<le> k \<and> k + length [46, 32 :: nat] \<le> nat 7601"
      then have "3900 < k" "k < 8902" by simp_all
      then have "sentence_text ! k \<noteq> 46" by (rule sentence_text_nth_late)
      then show "take (length [46, 32 :: nat]) (drop k sentence_text) \<noteq> [46, 32]"
        by (intro no_match_at) simp_all
    qed
  qed (simp_all add: sentence_text_length)
  then show ?thesis by (simp add: l)
qed

lemma chunk_loop_step:
  assumes "start < int (length t)" "chunk_end t cc start = e" "chunk_next t oc e = n"
    "chunk_emit t start e chunks = chunks'"
  shows "chunk_loop t cc oc start chunks = chunk_loop t cc oc n chunks'"
  using assms by (subst chunk_loop.simps) simp

lemma chunk_loop_exit: "\<not> start < int (length t) \<Longrightarrow> chunk_loop t cc oc start chunks = Some chunks"
  by (subst chunk_loop.simps) simp

lemma sentence_text_chunks:
  "chunk_loop sentence_text 4000 300 0 [] =
     Some [replicate 3601 97 @ [32] @ replicate 298 97 @ [46],
           replicate 298 97 @ [46, 32] @ replicate 3699 98,
           replicate 1601 98]"
proof -
  let ?c1 = "replicate 3601 97 @ [32] @ replicate 298 97 @ [46::nat]"
  let ?c2 = "replicate 298 97 @ [46, 32] @ replicate 3699 (98::nat)"
  let ?c3 = "replicate 1601 (98::nat)"
  have e1: "chunk_end sentence_text 4000 0 = 3901"
    by (simp add: chunk_end_def sentence_text_length sentence_text_rfind1)
  have e2: "chunk_end sentence_text 4000 3601 = 7601"
    by (simp add: chunk_end_def sentence_text_length sentence_text_rfind2)
  have e3: "chunk_end sentence_text 4000 7301 = 11301"
    by (simp add: chunk_end_def sentence_text_length)
  have n1: "chunk_next sentence_text 300 3901 = 3601"
    and n2: "chunk_next sentence_text 300 7601 = 7301"
    and n3: "chunk_next sentence_text 300 11301 = 8902"
    by (simp_all add: chunk_next_def sentence_text_length)
  have s1: "py_slice sentence_text 0 3901 = ?c1"
    and s2: "py_slice sentence_text 3601 7601 = [32] @ ?c2"
    and s3: "py_slice sentence_text 7301 11301 = ?c3"
    by (simp_all add: py_slice_def py_bound_def sentence_text_def)
  have p1: "py_strip ?c1 = ?c1"
    by (rule py_strip_id) (simp_all add: is_space_def)
  have p2: "py_strip ([32] @ ?c2) = ?c2"
    by (rule py_strip_leading) (simp_all add: is_space_def)
  have p3: "py_strip ?c3 = ?c3"
    by (rule py_strip_id) (simp_all add: is_space_def)
  have m1: "chunk_emit sentence_text 0 3901 [] = [?c1]"
    unfolding chunk_emit_def s1 p1 by simp
  have m2: "chunk_emit sentence_text 3601 7601 [?c1] = [?c1, ?c2]"
    unfolding chunk_emit_def s2 p2 by simp
  have m3: "chunk_emit sentence_text 7301 11301 [?c1, ?c2] = [?c1, ?c2, ?c3]"
    unfolding chunk_emit_def s3 p3 by simp
  have "chunk_loop sentence_text 4000 300 0 [] = chunk_loop sentence_text 4000 300 3601 [?c1]"
    by (rule chunk_loop_step [OF _ e1 n1 m1]) (simp add: sentence_text_length)
  also have "\<dots> = chunk_loop sentence_text 4000 300 7301 [?c1, ?c2]"
    by (rule chunk_loop_step [OF _ e2 n2 m2]) (simp add: sentence_text_length)
  also have "\<dots> = chunk_loop sentence_text 4000 300 8902 [?c1, ?c2, ?c3]"
    by (rule chunk_loop_step [OF _ e3 n3 m3]) (simp add: sentence_text_length)
  also have "\<dots> = Some [?c1, ?c2, ?c3]"
    by (rule chunk_loop_exit) (simp add: sentence_text_length)
  finally show ?thesis .
qed

lemma sentence_text_normalized: "clean_text_for_llm sentence_text 24000 = sentence_text"
proof -
  have "clean_joined sentence_text = sentence_text"
    by (rule clean_joined_single) (simp_all add: sentence_text_def is_space_def)
  then show ?thesis by (simp add: clean_text_for_llm_def sentence_text_length)
qed


text \<open>
  Claim C3, as the code has it. The loop has no guard on the advance. When
  \<open>0 \<le> overlap\<close> and \<open>overlap + 50 \<le> chunk_size\<close> (so that the overlap in characters
  is at least 200 below the chunk size, the width of the sentence lookback; the defaults
  1000 and 75 satisfy this), every iteration from a start offset inside the text moves
  the start strictly forward, and \<open>chunk_text\<close> returns.
\<close>

theorem chunk_text_progress:
  "0 \<le> overlap \<Longrightarrow> overlap + 50 \<le> chunk_size \<Longrightarrow>
     (\<forall>start. 0 \<le> start \<and> start < int (length text) \<longrightarrow>
        start < chunk_next text (overlap * CHARS_PER_TOKEN)
                  (chunk_end text (chunk_size * CHARS_PER_TOKEN) start)) \<and>
     (\<exists>chunks. chunk_text text chunk_size overlap = Some chunks)"
proof (intro conjI allI impI)
  assume a: "0 \<le> overlap" "overlap + 50 \<le> chunk_size"
  then have c: "0 \<le> overlap * CHARS_PER_TOKEN"
      "overlap * CHARS_PER_TOKEN + 200 \<le> chunk_size * CHARS_PER_TOKEN"
    by (simp_all add: CHARS_PER_TOKEN_def)
  show "\<exists>chunks. chunk_text text chunk_size overlap = Some chunks"
    unfolding chunk_text_def by (rule chunk_loop_returns [OF c]) simp
  fix start assume "0 \<le> start \<and> start < int (length text)"
  then show "start < chunk_next text (overlap * CHARS_PER_TOKEN)
                  (chunk_end text (chunk_size * CHARS_PER_TOKEN) start)"
    using chunk_step_progress(1) [OF c] by simp
qed

theorem chunk_text_progress_witness:
  "(0::int) \<le> 75 \<and> (75::int) + 50 \<le> 1000
   \<and> 0 < chunk_next sparse_text (75 * CHARS_PER_TOKEN) (chunk_end sparse_text (1000 * CHARS_PER_TOKEN) 0)
   \<and> (\<exists>chunks. chunk_text sparse_text 1000 75 = Some chunks)"
proof -
  have h: "(0::int) \<le> 75" "(75::int) + 50 \<le> 1000" by simp_all
  have l: "(0::int) \<le> 0 \<and> 0 < int (length sparse_text)" by (simp add: sparse_text_length)
  from chunk_text_progress [OF h, of sparse_text] l h show ?thesis by blast
qed

text \<open>
  With the overlap equal to the chunk size the start offset stays at 0 and the loop never
  returns.
\<close>

theorem chunk_text_progress_counterexample:
  "chunk_next (lit ''abcdefgh'') (1 * CHARS_PER_TOKEN)
     (chunk_end (lit ''abcdefgh'') (1 * CHARS_PER_TOKEN) 0) = 0
   \<and> chunk_text (lit ''abcdefgh'') 1 1 = None"
proof -
  have "chunk_end (lit ''abcdefgh'') 4 0 = 4"
    by (simp add: chunk_end_def lit_def py_rfind_def py_bound_def)
  moreover have "chunk_next (lit ''abcdefgh'') 4 4 = 0"
    by (simp add: chunk_next_def lit_def)
  ultimately show ?thesis
    by (simp add: CHARS_PER_TOKEN_def chunk_text_stall_equal)
qed

text \<open>
  Claim C2, as the code has it. Under the same condition on the configuration,
  \<open>chunk_text\<close> returns, and every position of the text that holds a non-whitespace
  character lies inside an occurrence of one of the returned chunks in the text.
  Whitespace at the ends of a span is stripped and a span of whitespace is dropped.
\<close>

theorem chunk_text_covers:
  "0 \<le> overlap \<Longrightarrow> overlap + 50 \<le> chunk_size \<Longrightarrow>
     \<exists>chunks. chunk_text text chunk_size overlap = Some chunks \<and>
       (\<forall>p<length text. \<not> is_space (text ! p) \<longrightarrow> (\<exists>c\<in>set chunks. in_chunk text c p))"
  unfolding chunk_text_def CHARS_PER_TOKEN_def
  by (rule chunk_loop_covers) auto

theorem chunk_text_covers_witness:
  "(0::int) \<le> 75 \<and> (75::int) + 50 \<le> 1000
   \<and> clean_text_for_llm sentence_text 24000 = sentence_text
   \<and> 3000 \<le> length sentence_text
   \<and> 3950 < length sentence_text \<and> \<not> is_space (sentence_text ! 3950)
   \<and> chunk_text sentence_text 1000 75 =
       Some [replicate 3601 97 @ [32] @ replicate 298 97 @ [46],
             replicate 298 97 @ [46, 32] @ replicate 3699 98,
             replicate 1601 98]
   \<and> (\<exists>c\<in>set [replicate 3601 97 @ [32] @ replicate 298 97 @ [46],
                 replicate 298 97 @ [46, 32] @ replicate 3699 98,
                 replicate 1601 98]. in_chunk sentence_text c 3950)
   \<and> clean_text_for_llm sparse_text 24000 = sparse_text
   \<and> 9001 < length sparse_text \<and> \<not> is_space (sparse_text ! 9001)
   \<and> chunk_text sparse_text 1000 75 = Some [[97], [98]]
   \<and> (\<exists>c\<in>set [[97], [98]]. in_chunk sparse_text c 9001)"
proof -
  have h: "(0::int) \<le> 75" "(75::int) + 50 \<le> 1000" by simp_all
  have l: "3000 \<le> length sentence_text" "3950 < length sentence_text"
    by (simp_all add: sentence_text_length)
  have n: "\<not> is_space (sentence_text ! 3950)"
    by (simp add: sentence_text_def nth_append is_space_def)
  have c: "chunk_text sentence_text 1000 75 =
       Some [replicate 3601 97 @ [32] @ replicate 298 97 @ [46],
             replicate 298 97 @ [46, 32] @ replicate 3699 98,
             replicate 1601 98]"
    by (simp add: chunk_text_def CHARS_PER_TOKEN_def sentence_text_chunks)
  from chunk_text_covers [OF h, of sentence_text] l(2) n
  have "\<exists>chunks. chunk_text sentence_text 1000 75 = Some chunks \<and>
      (\<exists>c\<in>set chunks. in_chunk sentence_text c 3950)"
    by blast
  then have a: "\<exists>c\<in>set [replicate 3601 97 @ [32] @ replicate 298 97 @ [46],
                 replicate 298 97 @ [46, 32] @ replicate 3699 98,
                 replicate 1601 98]. in_chunk sentence_text c 3950"
    unfolding c by blast
  have l': "9001 < length sparse_text" by (simp add: sparse_text_length)
  have n': "\<not> is_space (sparse_text ! 9001)"
    by (simp add: sparse_text_def nth_append is_space_def)
  have c': "chunk_text sparse_text 1000 75 = Some [[97], [98]]"
    by (simp add: chunk_text_def CHARS_PER_TOKEN_def sparse_text_chunks)
  from chunk_text_covers [OF h, of sparse_text] l' n'
  have "\<exists>chunks. chunk_text sparse_text 1000 75 = Some chunks \<and>
      (\<exists>c\<in>set chunks. in_chunk sparse_text c 9001)"
    by blast
  then have a': "\<exists>c\<in>set [[97], [98]]. in_chunk sparse_text c 9001"
    unfolding c' by blast
  from h sentence_text_normalized l n c a sparse_text_normalized l' n' c' a'
  show ?thesis by blast
qed

text \<open>
  A normalized text of 9002 characters, one letter at each end of 9000 spaces, is split
  into the two chunks \<open>"a"\<close> and \<open>"b"\<close>: position 5000 is in no chunk.
\<close>

theorem chunk_text_covers_counterexample:
  "clean_text_for_llm sparse_text 24000 = sparse_text
   \<and> 3000 \<le> length sparse_text
   \<and> chunk_text sparse_text CHUNK_SIZE_TOKENS CHUNK_OVERLAP_TOKENS = Some [[97], [98]]
   \<and> \<not> in_chunk sparse_text [97] 5000 \<and> \<not> in_chunk sparse_text [98] 5000"
proof -
  have v: "sparse_text ! 5000 = 32" by (simp add: sparse_text_def nth_append)
  have "\<not> in_chunk sparse_text [x] 5000" if "x \<noteq> 32" for x
  proof
    assume "in_chunk sparse_text [x] 5000"
    then have "sparse_text ! 5000 = x"
      by (rule in_chunk_single) (simp add: sparse_text_length)
    with v that show False by simp
  qed
  then have "\<not> in_chunk sparse_text [97] 5000" "\<not> in_chunk sparse_text [98] 5000"
    by simp_all
  then show ?thesis
    by (simp add: sparse_text_normalized sparse_text_length chunk_text_def CHUNK_SIZE_TOKENS_def
        CHUNK_OVERLAP_TOKENS_def CHARS_PER_TOKEN_def sparse_text_chunks)
qed


section \<open>Properties of the fan-out scheduler\<close>

lemma summarize_chunk_sync_events:
  "snd (summarize_chunk_sync b c i) = [BackendCall (ChunkCall i) (chunk_prompt c)]"
  by (simp add: summarize_chunk_sync_def)

lemma summarize_chunk_sync_value:
  "fst (summarize_chunk_sync b c i) =
     (case b (ChunkCall i) (chunk_prompt c) of
        Inr summary \<Rightarrow>
          if summary \<noteq> [] \<and> \<not> py_startswith (py_strip summary) [8226]
          then [8226, 32] @ summary else summary
      | Inl e \<Rightarrow>
          [8226] @ lit '' [Chunk '' @ str_nat (i + 1) @ lit '' processing failed: ''
          @ take 50 (exn_str e) @ lit '']'')"
  by (simp add: summarize_chunk_sync_def chunk_failure_sentinel_def split: sum.splits)

lemma sequential_summaries_fst_Cons:
  "fst (sequential_summaries b i (c # cs)) =
     Some (fst (summarize_chunk_sync b c i)) # fst (sequential_summaries b (Suc i) cs)"
  by (simp add: case_prod_beta)

lemma sequential_summaries_snd_Cons:
  "snd (sequential_summaries b i (c # cs)) =
     snd (summarize_chunk_sync b c i) @ snd (sequential_summaries b (Suc i) cs)"
  by (simp add: case_prod_beta)

declare sequential_summaries.simps(2) [simp del]

lemma sequential_summaries_length: "length (fst (sequential_summaries b i chunks)) = length chunks"
  by (induction chunks arbitrary: i) (simp_all add: sequential_summaries_fst_Cons)

lemma sequential_summaries_nth:
  "k < length chunks \<Longrightarrow>
     fst (sequential_summaries b i chunks) ! k = Some (fst (summarize_chunk_sync b (chunks ! k) (i + k)))"
proof (induction chunks arbitrary: i k)
  case Nil
  then show ?case by simp
next
  case (Cons c cs)
  show ?case
  proof (cases k)
    case 0
    then show ?thesis by (simp add: sequential_summaries_fst_Cons)
  next
    case (Suc k')
    then have "k' < length cs" using Cons.prems by simp
    from Cons.IH [OF this, of "Suc i"] Suc show ?thesis
      by (simp add: sequential_summaries_fst_Cons)
  qed
qed

lemma sequential_summaries_requests:
  "snd (sequential_summaries b i chunks) = submitted_requests b i chunks"
  by (induction chunks arbitrary: i) (simp_all add: sequential_summaries_snd_Cons)

lemma submitted_requests_map:
  "submitted_requests b i chunks =
     map (\<lambda>k. BackendCall (ChunkCall (i + k)) (chunk_prompt (chunks ! k))) [0..<length chunks]"
proof (induction chunks arbitrary: i)
  case Nil
  then show ?case by simp
next
  case (Cons c cs)
  have "[0..<length (c # cs)] = 0 # map Suc [0..<length cs]"
    by (simp add: upt_conv_Cons map_Suc_upt del: upt_Suc)
  then show ?case
    by (simp add: Cons.IH [of "Suc i"] summarize_chunk_sync_events comp_def del: upt_Suc)
qed

lemma collect_results_Cons:
  "collect_results b fault chunks (idx # order) slots =
     collect_results b fault chunks order (slots[idx := Some (slot_value b fault chunks idx)])"
  by (simp add: slot_value_def future_result_def split: option.splits)

declare collect_results.simps(2) [simp del]

lemma collect_results_length:
  "length (collect_results b fault chunks order slots) = length slots"
  by (induction order arbitrary: slots) (simp_all add: collect_results_Cons)

lemma collect_results_nth:
  "i < length slots \<Longrightarrow>
     collect_results b fault chunks order slots ! i =
       (if i \<in> set order then Some (slot_value b fault chunks i) else slots ! i)"
proof (induction order arbitrary: slots)
  case Nil
  then show ?case by simp
next
  case (Cons idx order)
  let ?v = "Some (slot_value b fault chunks idx)"
  have "i < length (slots[idx := ?v])" using Cons.prems by simp
  from Cons.IH [OF this] Cons.prems show ?case
    by (auto simp: collect_results_Cons nth_list_update)
qed

lemma parallel_length:
  "length (fst (parallel_chunk_summarization b fault order chunks)) = length chunks"
  by (simp add: parallel_chunk_summarization_def collect_results_length)

lemma parallel_nth:
  "i < length chunks \<Longrightarrow> i \<in> set order \<Longrightarrow>
     fst (parallel_chunk_summarization b fault order chunks) ! i = Some (slot_value b fault chunks i)"
  by (simp add: parallel_chunk_summarization_def collect_results_nth)

lemma stage1_length:
  "length (fst (stage1_summaries env chunks)) = length chunks"
  by (simp add: stage1_summaries_def sequential_summaries_length parallel_length)

lemma stage1_requests:
  "snd (stage1_summaries env chunks) =
     map (\<lambda>i. BackendCall (ChunkCall i) (chunk_prompt (chunks ! i))) [0..<length chunks]"
  using submitted_requests_map [of "backend env" 0 chunks]
  by (simp add: stage1_summaries_def sequential_summaries_requests parallel_chunk_summarization_def)

lemma stage1_nth:
  assumes "set (completion env (length chunks)) = {0..<length chunks}" "i < length chunks"
  shows "fst (stage1_summaries env chunks) ! i =
        Some (if length chunks \<le> 2 then fst (summarize_chunk_sync (backend env) (chunks ! i) i)
              else slot_value (backend env) (task_fault env) chunks i)"
proof (cases "length chunks \<le> 2")
  case True
  then show ?thesis
    using sequential_summaries_nth [OF assms(2), of "backend env" 0]
    by (simp add: stage1_summaries_def)
next
  case False
  have "i \<in> set (completion env (length chunks))" using assms by simp
  from parallel_nth [OF assms(2) this] False show ?thesis
    by (simp add: stage1_summaries_def)
qed

lemma stage1_nth_explicit:
  assumes "set (completion env (length chunks)) = {0..<length chunks}" "i < length chunks"
  shows "fst (stage1_summaries env chunks) ! i =
        Some (if 2 < length chunks \<and> task_fault env i \<noteq> None
              then [8226] @ lit '' [Chunk '' @ str_nat (i + 1) @ lit '' failed]''
              else case backend env (ChunkCall i) (chunk_prompt (chunks ! i)) of
                     Inr summary \<Rightarrow>
                       if summary \<noteq> [] \<and> \<not> py_startswith (py_strip summary) [8226]
                       then [8226, 32] @ summary else summary
                   | Inl e \<Rightarrow>
                       [8226] @ lit '' [Chunk '' @ str_nat (i + 1) @ lit '' processing failed: ''
                       @ take 50 (exn_str e) @ lit '']'')"
  unfolding stage1_nth [OF assms]
  by (auto simp: slot_value_def task_failure_sentinel_def summarize_chunk_sync_value
      split: option.splits)

lemma py_contains_mid: "py_contains (pre @ s @ post) s"
  unfolding py_contains_def by (rule exI [where x = "length pre"]) simp

lemma py_contains_split: "py_contains a s \<Longrightarrow> \<exists>pre post. a = pre @ s @ post"
proof -
  assume "py_contains a s"
  then obtain k where k: "take (length s) (drop k a) = s" by (auto simp: py_contains_def)
  have "drop k a = take (length s) (drop k a) @ drop (length s) (drop k a)"
    by (rule append_take_drop_id [symmetric])
  then have "drop k a = s @ drop (length s) (drop k a)" unfolding k .
  moreover have "a = take k a @ drop k a" by simp
  ultimately have "a = take k a @ s @ drop (length s) (drop k a)" by metis
  then show ?thesis by blast
qed

lemma py_contains_embed: "py_contains a s \<Longrightarrow> py_contains (p @ a @ q) s"
proof -
  assume "py_contains a s"
  from py_contains_split [OF this] obtain pre post where "a = pre @ s @ post" by blast
  then have "p @ a @ q = (p @ pre) @ s @ (post @ q)" by simp
  then show ?thesis using py_contains_mid [of "p @ pre" s "post @ q"] by simp
qed


lemma py_startswith_append: "py_startswith (p @ r) p"
  by (simp add: py_startswith_def)

lemma those_map_Some: "those (map Some xs) = Some xs"
  by (induction xs) simp_all

lemma stage1_all_Some:
  assumes "set (completion env (length chunks)) = {0..<length chunks}"
  shows "fst (stage1_summaries env chunks) =
     map Some (map (\<lambda>i. if length chunks \<le> 2
                         then fst (summarize_chunk_sync (backend env) (chunks ! i) i)
                         else slot_value (backend env) (task_fault env) chunks i)
                [0..<length chunks])"
  by (rule nth_equalityI) (simp_all add: stage1_length stage1_nth [OF assms])

lemma merge_summaries_events:
  "snd (merge_summaries b (map Some summaries)) =
     [BackendCall MergeCall (merge_prompt (py_join [10] summaries))]"
  by (simp add: merge_summaries_def those_map_Some Let_def)

lemma chunked_summary_pair:
  "chunked_summary env chunks =
     (fst (merge_summaries (backend env) (fst (stage1_summaries env chunks))),
      snd (stage1_summaries env chunks) @
      snd (merge_summaries (backend env) (fst (stage1_summaries env chunks))))"
  by (simp add: chunked_summary_def case_prod_beta)

lemma py_join_split: "s \<in> set ss \<Longrightarrow> \<exists>pre post. py_join sep ss = pre @ s @ post"
proof (induction sep ss rule: py_join.induct)
  case (1 sep)
  then show ?case by simp
next
  case (2 sep x)
  then have "py_join sep [x] = [] @ s @ []" by simp
  then show ?case by blast
next
  case (3 sep x y ys)
  show ?case
  proof (cases "s = x")
    case True
    then have "py_join sep (x # y # ys) = [] @ s @ (sep @ py_join sep (y # ys))" by simp
    then show ?thesis by blast
  next
    case False
    then have "s \<in> set (y # ys)" using 3 by simp
    from 3(1) [OF this] obtain pre post where "py_join sep (y # ys) = pre @ s @ post" by blast
    then have "py_join sep (x # y # ys) = (x @ sep @ pre) @ s @ post" by simp
    then show ?thesis by blast
  qed
qed

lemma py_contains_join: "s \<in> set ss \<Longrightarrow> py_contains (h @ py_join sep ss) s"
proof -
  assume "s \<in> set ss"
  from py_join_split [OF this] obtain pre post where "py_join sep ss = pre @ s @ post" by blast
  then have "h @ py_join sep ss = (h @ pre) @ s @ post" by simp
  then show ?thesis using py_contains_mid [of "h @ pre" s post] by simp
qed

lemma merge_prompt_contains: "s \<in> set ss \<Longrightarrow> py_contains (merge_prompt (py_join [10] ss)) s"
proof -
  assume "s \<in> set ss"
  then have "py_contains (py_join [10] ss) s"
    using py_contains_join [of s ss "[]" "[10]"] by simp
  then show ?thesis unfolding merge_prompt_def by (rule py_contains_embed)
qed

lemma chunked_summary_merge:
  assumes "fst (stage1_summaries env chunks) = map Some summaries"
  shows "chunked_summary env chunks =
     (fst (merge_summaries (backend env) (map Some summaries)),
      map (\<lambda>i. BackendCall (ChunkCall i) (chunk_prompt (chunks ! i))) [0..<length chunks] @
      [BackendCall MergeCall (merge_prompt (py_join [10] summaries))])"
  unfolding chunked_summary_pair assms stage1_requests merge_summaries_events ..

lemma faulty_env_order:
  "set (completion faulty_env (length [lit ''a'', lit ''b'', lit ''c''])) =
     {0..<length [lit ''a'', lit ''b'', lit ''c'']}"
proof -
  have c: "completion faulty_env n = rev [0 ..< n]" for n
    by (simp add: faulty_env_def echo_env_def stub_env_def)
  show ?thesis unfolding c by (simp only: set_rev set_upt)
qed



text \<open>
  Claim C6, as the code has it. A request that raises makes \<open>summarize_chunk_sync\<close>
  return \<open>"\<bullet> [Chunk idx+1 processing failed: " + str(e)[:50] + "]"\<close>; a failed task
  is stored as \<open>"\<bullet> [Chunk idx+1 failed]"\<close>. The two strings start alike, with the
  bullet and the 1-based chunk number, and differ after it. A failure at one index
  leaves every other slot as it is; all slots are strings, the merge request is made, and
  its prompt contains every slot's string.
\<close>

theorem chunk_failure_contained:
  "(backend env (ChunkCall idx) (chunk_prompt chunk) = Inl e \<longrightarrow>
      fst (summarize_chunk_sync (backend env) chunk idx) =
        [8226] @ lit '' [Chunk '' @ str_nat (idx + 1) @ lit '' processing failed: ''
        @ take 50 (exn_str e) @ lit '']'') \<and>
   (backend env (ChunkCall idx) (chunk_prompt chunk) = Inr summary \<longrightarrow>
      fst (summarize_chunk_sync (backend env) chunk idx) =
        (if summary \<noteq> [] \<and> \<not> py_startswith (py_strip summary) [8226]
         then [8226, 32] @ summary else summary)) \<and>
   py_startswith
     ([8226] @ lit '' [Chunk '' @ str_nat (idx + 1) @ lit '' processing failed: ''
      @ take 50 (exn_str e) @ lit '']'')
     ([8226] @ lit '' [Chunk '' @ str_nat (idx + 1) @ lit '' '') \<and>
   py_startswith
     ([8226] @ lit '' [Chunk '' @ str_nat (idx + 1) @ lit '' failed]'')
     ([8226] @ lit '' [Chunk '' @ str_nat (idx + 1) @ lit '' '') \<and>
   (set (completion env (length chunks)) = {0..<length chunks} \<longrightarrow>
      (\<forall>j<length chunks. 2 < length chunks \<and> task_fault env j \<noteq> None \<longrightarrow>
         fst (stage1_summaries env chunks) ! j =
           Some ([8226] @ lit '' [Chunk '' @ str_nat (j + 1) @ lit '' failed]'')) \<and>
      (\<exists>summaries. length summaries = length chunks \<and>
         fst (stage1_summaries env chunks) = map Some summaries \<and>
         (\<forall>i<length chunks. length chunks \<le> 2 \<or> task_fault env i = None \<longrightarrow>
            summaries ! i = fst (summarize_chunk_sync (backend env) (chunks ! i) i)) \<and>
         chunked_summary env chunks =
           (fst (merge_summaries (backend env) (map Some summaries)),
            map (\<lambda>i. BackendCall (ChunkCall i) (chunk_prompt (chunks ! i))) [0..<length chunks] @
            [BackendCall MergeCall (merge_prompt (py_join [10] summaries))]) \<and>
         (\<forall>s\<in>set summaries. py_contains (merge_prompt (py_join [10] summaries)) s)))"
proof (intro conjI impI)
  show "fst (summarize_chunk_sync (backend env) chunk idx) =
        [8226] @ lit '' [Chunk '' @ str_nat (idx + 1) @ lit '' processing failed: ''
        @ take 50 (exn_str e) @ lit '']''"
    if "backend env (ChunkCall idx) (chunk_prompt chunk) = Inl e"
    using that by (simp add: summarize_chunk_sync_value)
  show "fst (summarize_chunk_sync (backend env) chunk idx) =
        (if summary \<noteq> [] \<and> \<not> py_startswith (py_strip summary) [8226]
         then [8226, 32] @ summary else summary)"
    if "backend env (ChunkCall idx) (chunk_prompt chunk) = Inr summary"
    using that by (simp add: summarize_chunk_sync_value)
  let ?p = "[8226] @ lit '' [Chunk '' @ str_nat (idx + 1) @ lit '' ''"
  have "[8226] @ lit '' [Chunk '' @ str_nat (idx + 1) @ lit '' processing failed: ''
      @ take 50 (exn_str e) @ lit '']'' =
      ?p @ (lit ''processing failed: '' @ take 50 (exn_str e) @ lit '']'')"
    by (simp add: lit_def)
  then show "py_startswith
     ([8226] @ lit '' [Chunk '' @ str_nat (idx + 1) @ lit '' processing failed: ''
      @ take 50 (exn_str e) @ lit '']'') ?p"
    using py_startswith_append [of ?p] by simp
  have "[8226] @ lit '' [Chunk '' @ str_nat (idx + 1) @ lit '' failed]'' = ?p @ lit ''failed]''"
    by (simp add: lit_def)
  then show "py_startswith ([8226] @ lit '' [Chunk '' @ str_nat (idx + 1) @ lit '' failed]'') ?p"
    using py_startswith_append [of ?p] by simp
next
  assume c: "set (completion env (length chunks)) = {0..<length chunks}"
  show "\<forall>j<length chunks. 2 < length chunks \<and> task_fault env j \<noteq> None \<longrightarrow>
         fst (stage1_summaries env chunks) ! j =
           Some ([8226] @ lit '' [Chunk '' @ str_nat (j + 1) @ lit '' failed]'')"
    using stage1_nth_explicit [OF c] by auto
  let ?ss = "map (\<lambda>i. if length chunks \<le> 2
                         then fst (summarize_chunk_sync (backend env) (chunks ! i) i)
                         else slot_value (backend env) (task_fault env) chunks i)
                [0..<length chunks]"
  have s: "fst (stage1_summaries env chunks) = map Some ?ss" by (rule stage1_all_Some [OF c])
  have "length ?ss = length chunks" by simp
  moreover have "\<forall>i<length chunks. length chunks \<le> 2 \<or> task_fault env i = None \<longrightarrow>
            ?ss ! i = fst (summarize_chunk_sync (backend env) (chunks ! i) i)"
    by (auto simp: slot_value_def)
  moreover note chunked_summary_merge [OF s]
  moreover have "\<forall>s\<in>set ?ss. py_contains (merge_prompt (py_join [10] ?ss)) s"
    using merge_prompt_contains by blast
  ultimately show "\<exists>summaries. length summaries = length chunks \<and>
         fst (stage1_summaries env chunks) = map Some summaries \<and>
         (\<forall>i<length chunks. length chunks \<le> 2 \<or> task_fault env i = None \<longrightarrow>
            summaries ! i = fst (summarize_chunk_sync (backend env) (chunks ! i) i)) \<and>
         chunked_summary env chunks =
           (fst (merge_summaries (backend env) (map Some summaries)),
            map (\<lambda>i. BackendCall (ChunkCall i) (chunk_prompt (chunks ! i))) [0..<length chunks] @
            [BackendCall MergeCall (merge_prompt (py_join [10] summaries))]) \<and>
         (\<forall>s\<in>set summaries. py_contains (merge_prompt (py_join [10] summaries)) s)"
    using s by blast
qed

theorem chunk_failure_contained_witness:
  "backend faulty_env (ChunkCall 1) (chunk_prompt (lit ''b'')) = Inl (ReadTimeout (lit ''timed out''))
   \<and> fst (summarize_chunk_sync (backend faulty_env) (lit ''b'') 1) =
       [8226] @ lit '' [Chunk 2 processing failed: timed out]''
   \<and> backend faulty_env (ChunkCall 0) (chunk_prompt (lit ''a'')) = Inr ([8226] @ lit '' 0'')
   \<and> fst (summarize_chunk_sync (backend faulty_env) (lit ''a'') 0) = [8226] @ lit '' 0''
   \<and> set (completion faulty_env (length [lit ''a'', lit ''b'', lit ''c''])) =
       {0..<length [lit ''a'', lit ''b'', lit ''c'']}
   \<and> task_fault faulty_env 2 \<noteq> None
   \<and> fst (stage1_summaries faulty_env [lit ''a'', lit ''b'', lit ''c'']) ! 2 =
       Some ([8226] @ lit '' [Chunk 3 failed]'')
   \<and> (\<exists>summaries. fst (stage1_summaries faulty_env [lit ''a'', lit ''b'', lit ''c'']) =
         map Some summaries \<and>
         summaries ! 0 =
           fst (summarize_chunk_sync (backend faulty_env) ([lit ''a'', lit ''b'', lit ''c''] ! 0) 0) \<and>
         chunked_summary faulty_env [lit ''a'', lit ''b'', lit ''c''] =
           (fst (merge_summaries (backend faulty_env) (map Some summaries)),
            map (\<lambda>i. BackendCall (ChunkCall i) (chunk_prompt ([lit ''a'', lit ''b'', lit ''c''] ! i)))
              [0..<length [lit ''a'', lit ''b'', lit ''c'']] @
            [BackendCall MergeCall (merge_prompt (py_join [10] summaries))]))"
proof -
  let ?cs = "[lit ''a'', lit ''b'', lit ''c'']"
  have h1: "backend faulty_env (ChunkCall 1) (chunk_prompt (lit ''b'')) =
      Inl (ReadTimeout (lit ''timed out''))"
    by (simp add: faulty_env_def)
  have h0: "backend faulty_env (ChunkCall 0) (chunk_prompt (lit ''a'')) = Inr ([8226] @ lit '' 0'')"
    by (simp add: faulty_env_def str_nat.simps lit_def)
  note h2 = faulty_env_order
  have h3: "task_fault faulty_env 2 \<noteq> None" "task_fault faulty_env 0 = None"
    by (simp_all add: faulty_env_def)
  have l: "(2::nat) < length ?cs" "(0::nat) < length ?cs" by simp_all
  note t = chunk_failure_contained [of faulty_env 1 "lit ''b''" "ReadTimeout (lit ''timed out'')" _ ?cs]
  note t0 = chunk_failure_contained [of faulty_env 0 "lit ''a''" _ "[8226] @ lit '' 0''" ?cs]
  from t h1 have "fst (summarize_chunk_sync (backend faulty_env) (lit ''b'') 1) =
        [8226] @ lit '' [Chunk '' @ str_nat (1 + 1) @ lit '' processing failed: ''
        @ take 50 (exn_str (ReadTimeout (lit ''timed out''))) @ lit '']''"
    by blast
  then have a: "fst (summarize_chunk_sync (backend faulty_env) (lit ''b'') 1) =
       [8226] @ lit '' [Chunk 2 processing failed: timed out]''"
    by (simp add: str_nat.simps lit_def)
  from t0 h0 have "fst (summarize_chunk_sync (backend faulty_env) (lit ''a'') 0) =
        (if [8226] @ lit '' 0'' \<noteq> [] \<and> \<not> py_startswith (py_strip ([8226] @ lit '' 0'')) [8226]
         then [8226, 32] @ ([8226] @ lit '' 0'') else [8226] @ lit '' 0'')"
    by blast
  then have a0: "fst (summarize_chunk_sync (backend faulty_env) (lit ''a'') 0) = [8226] @ lit '' 0''"
    by (simp add: py_startswith_def py_strip_def is_space_def lit_def)
  from t h2 have b: "\<forall>j<length ?cs. 2 < length ?cs \<and> task_fault faulty_env j \<noteq> None \<longrightarrow>
         fst (stage1_summaries faulty_env ?cs) ! j =
           Some ([8226] @ lit '' [Chunk '' @ str_nat (j + 1) @ lit '' failed]'')"
    by blast
  from b l(1) h3(1) have "fst (stage1_summaries faulty_env ?cs) ! 2 =
      Some ([8226] @ lit '' [Chunk '' @ str_nat (2 + 1) @ lit '' failed]'')"
    by blast
  then have b': "fst (stage1_summaries faulty_env ?cs) ! 2 = Some ([8226] @ lit '' [Chunk 3 failed]'')"
    by (simp add: str_nat.simps lit_def)
  from t h2 obtain summaries where s: "fst (stage1_summaries faulty_env ?cs) = map Some summaries"
    "\<forall>i<length ?cs. length ?cs \<le> 2 \<or> task_fault faulty_env i = None \<longrightarrow>
        summaries ! i = fst (summarize_chunk_sync (backend faulty_env) (?cs ! i) i)"
    "chunked_summary faulty_env ?cs =
           (fst (merge_summaries (backend faulty_env) (map Some summaries)),
            map (\<lambda>i. BackendCall (ChunkCall i) (chunk_prompt (?cs ! i))) [0..<length ?cs] @
            [BackendCall MergeCall (merge_prompt (py_join [10] summaries))])"
    by blast
  from s(2) l(2) h3(2) have "summaries ! 0 = fst (summarize_chunk_sync (backend faulty_env) (?cs ! 0) 0)"
    by blast
  with s(1) s(3) have e: "\<exists>summaries. fst (stage1_summaries faulty_env ?cs) = map Some summaries \<and>
         summaries ! 0 = fst (summarize_chunk_sync (backend faulty_env) (?cs ! 0) 0) \<and>
         chunked_summary faulty_env ?cs =
           (fst (merge_summaries (backend faulty_env) (map Some summaries)),
            map (\<lambda>i. BackendCall (ChunkCall i) (chunk_prompt (?cs ! i))) [0..<length ?cs] @
            [BackendCall MergeCall (merge_prompt (py_join [10] summaries))])"
    by blast
  from h1 a h0 a0 h2 h3(1) b' e show ?thesis by blast
qed

text \<open>
  The two sentinels are not the same representation: for the third chunk the failed
  request gives \<open>"\<bullet> [Chunk 3 processing failed: timed out]"\<close> and the failed task
  \<open>"\<bullet> [Chunk 3 failed]"\<close>.
\<close>

theorem chunk_failure_contained_counterexample:
  "fst (summarize_chunk_sync (\<lambda>site prompt. Inl (ReadTimeout (lit ''timed out''))) (lit ''c'') 2) =
     [8226] @ lit '' [Chunk 3 processing failed: timed out]''
   \<and> fst (stage1_summaries faulty_env [lit ''a'', lit ''b'', lit ''c'']) ! 2 =
       Some ([8226] @ lit '' [Chunk 3 failed]'')
   \<and> [8226] @ lit '' [Chunk 3 failed]'' \<noteq> [8226] @ lit '' [Chunk 3 processing failed: timed out]''"
proof -
  have a: "fst (summarize_chunk_sync (\<lambda>site prompt. Inl (ReadTimeout (lit ''timed out'')))
        (lit ''c'') 2) = [8226] @ lit '' [Chunk 3 processing failed: timed out]''"
    by (simp add: summarize_chunk_sync_value str_nat.simps lit_def)
  have "(2::nat) < length [lit ''a'', lit ''b'', lit ''c'']" by simp
  from stage1_nth_explicit [OF faulty_env_order this]
  have b: "fst (stage1_summaries faulty_env [lit ''a'', lit ''b'', lit ''c'']) ! 2 =
       Some ([8226] @ lit '' [Chunk 3 failed]'')"
    by (simp add: faulty_env_def str_nat.simps lit_def)
  have c: "[8226] @ lit '' [Chunk 3 failed]'' \<noteq> [8226] @ lit '' [Chunk 3 processing failed: timed out]''"
    by (simp add: lit_def)
  from a b c show ?thesis by blast
qed

section \<open>Properties of the synthesizer and of the single-pass summary\<close>

lemma py_strip_nonempty: "c \<in> set s \<Longrightarrow> \<not> is_space c \<Longrightarrow> py_strip s \<noteq> []"
proof
  assume c: "c \<in> set s" "\<not> is_space c" and e: "py_strip s = []"
  from e have "dropWhile is_space (rev (dropWhile is_space s)) = []" by (simp add: py_strip_def)
  then have all: "\<forall>x\<in>set (dropWhile is_space s). is_space x"
    by (simp add: dropWhile_eq_Nil_conv)
  have "dropWhile is_space s = []"
  proof (rule ccontr)
    assume n: "dropWhile is_space s \<noteq> []"
    then have "\<not> is_space (hd (dropWhile is_space s))" by (rule hd_dropWhile)
    moreover have "hd (dropWhile is_space s) \<in> set (dropWhile is_space s)" using n by simp
    ultimately show False using all by blast
  qed
  then have "\<forall>x\<in>set s. is_space x" by (simp add: dropWhile_eq_Nil_conv)
  with c show False by blast
qed

lemma chunk_text_default_returns:
  "\<exists>chunks. chunk_text t CHUNK_SIZE_TOKENS CHUNK_OVERLAP_TOKENS = Some chunks"
  unfolding chunk_text_def CHUNK_SIZE_TOKENS_def CHUNK_OVERLAP_TOKENS_def CHARS_PER_TOKEN_def
  by (rule chunk_loop_returns) simp_all

lemma merge_summaries_timeout:
  "b MergeCall (merge_prompt (py_join [10] summaries)) = Inl (ReadTimeout m) \<Longrightarrow>
     fst (merge_summaries b (map Some summaries)) =
       Inr (lit ''Key Points:\<newline>'' @ py_join [10] summaries)"
  by (simp add: merge_summaries_def those_map_Some Let_def)

lemma merge_summaries_error:
  "b MergeCall (merge_prompt (py_join [10] summaries)) = Inl e \<Longrightarrow> \<forall>m. e \<noteq> ReadTimeout m \<Longrightarrow>
     fst (merge_summaries b (map Some summaries)) =
       Inl (ValueError (lit ''Summary merge failed: '' @ exn_str e))"
  by (cases e) (simp_all add: merge_summaries_def those_map_Some Let_def)

lemma merge_summaries_response:
  "b MergeCall (merge_prompt (py_join [10] summaries)) = Inr response \<Longrightarrow>
     fst (merge_summaries b (map Some summaries)) = Inr response"
  by (simp add: merge_summaries_def those_map_Some Let_def)

lemma key_points_not_blank: "py_strip (lit ''Key Points:\<newline>'' @ x) \<noteq> []"
  by (rule py_strip_nonempty [where c = 75]) (simp_all add: lit_def is_space_def)

lemma py_strip_nonempty_arg: "py_strip s \<noteq> [] \<Longrightarrow> s \<noteq> []"
  by (auto simp: py_strip_def)

lemma summarize_and_store_ok:
  assumes "generate_summary env text = Some (Inr s, ev1)" "py_strip s \<noteq> []"
    "supabase_insert env file_id firebase_uid s = None"
  shows "summarize_and_store env firebase_uid file_id ev text =
     Some (Inr (), ev @ ev1 @
       [Insert file_id firebase_uid s,
        StatusUpdate firebase_uid file_id (lit ''complete'') 100
          (lit ''Summary generated successfully!'')])"
  using assms py_strip_nonempty_arg [OF assms(2)] by (simp add: summarize_and_store_def)

lemma summarize_and_store_error:
  assumes "generate_summary env text = Some (Inl e, ev1)"
  shows "summarize_and_store env firebase_uid file_id ev text =
     Some (report_error firebase_uid file_id e (ev @ ev1))"
  using assms by (simp add: summarize_and_store_def)

lemma process_text_merge_timeout:
  assumes len: "3000 \<le> length (clean_text_for_llm text 24000)"
    and timeout: "\<forall>prompt. \<exists>m. backend env MergeCall prompt = Inl (ReadTimeout m)"
    and order: "\<forall>n. set (completion env n) = {0..<n}"
    and insert: "\<forall>d u s. supabase_insert env d u s = None"
  shows "\<exists>ev summary. process_text env firebase_uid file_id text title =
      Some (Inr (), ev @ [Insert file_id firebase_uid summary,
        StatusUpdate firebase_uid file_id (lit ''complete'') 100
          (lit ''Summary generated successfully!'')])
      \<and> py_startswith summary (lit ''Key Points:\<newline>'')"
proof -
  let ?t = "clean_text_for_llm text 24000"
  obtain chunks where ch: "chunk_text ?t CHUNK_SIZE_TOKENS CHUNK_OVERLAP_TOKENS = Some chunks"
    using chunk_text_default_returns by blast
  have g: "generate_summary env text = Some (chunked_summary env chunks)"
    using len ch by (simp add: generate_summary_def Let_def)
  from order have "set (completion env (length chunks)) = {0..<length chunks}" by simp
  from stage1_all_Some [OF this] obtain ss where
    ss: "fst (stage1_summaries env chunks) = map Some ss" by blast
  obtain m where "backend env MergeCall (merge_prompt (py_join [10] ss)) = Inl (ReadTimeout m)"
    using timeout by blast
  from merge_summaries_timeout [of "backend env" ss m, OF this]
  have r: "fst (chunked_summary env chunks) = Inr (lit ''Key Points:\<newline>'' @ py_join [10] ss)"
    by (simp add: chunked_summary_pair ss)
  let ?s = "lit ''Key Points:\<newline>'' @ py_join [10] ss"
  let ?ev0 = "[StatusUpdate firebase_uid file_id (lit ''summarizing'') 50
                 (lit ''Generating AI summary...'')]"
  obtain ev1 where "chunked_summary env chunks = (Inr ?s, ev1)"
    using r by (cases "chunked_summary env chunks") simp
  then have "generate_summary env text = Some (Inr ?s, ev1)" using g by simp
  from summarize_and_store_ok [OF this key_points_not_blank] insert
  have "process_text env firebase_uid file_id text title =
      Some (Inr (), (?ev0 @ ev1) @
        [Insert file_id firebase_uid ?s,
         StatusUpdate firebase_uid file_id (lit ''complete'') 100
           (lit ''Summary generated successfully!'')])"
    by (simp add: process_text_def)
  moreover have "py_startswith ?s (lit ''Key Points:\<newline>'')" by (rule py_startswith_append)
  ultimately show ?thesis by blast
qed

lemma generate_single_summary_failure:
  "b SingleCall (single_prompt t) = Inl e \<Longrightarrow>
     generate_single_summary b t =
       (Inl (ValueError (case e of
               ReadTimeout m \<Rightarrow>
                 lit ''Summary generation timed out. Please try with a smaller document.''
             | _ \<Rightarrow> lit ''Summary generation failed: '' @ exn_str e)),
        [BackendCall SingleCall (single_prompt t)])"
  by (cases e) (simp_all add: generate_single_summary_def)

lemma short_text_clean: "clean_text_for_llm (lit ''short text'') 24000 = lit ''short text''"
  by (simp add: clean_text_for_llm_def clean_joined_def clean_lines_def lit_def py_strip_def
      is_space_def)

lemma process_text_merge_error:
  assumes len: "3000 \<le> length (clean_text_for_llm text 24000)"
    and fails: "\<forall>prompt. backend env MergeCall prompt = Inl e"
    and other: "\<forall>m. e \<noteq> ReadTimeout m"
    and order: "\<forall>n. set (completion env n) = {0..<n}"
  shows "\<exists>ev. process_text env firebase_uid file_id text title =
      Some (Inl (ValueError (lit ''Summary merge failed: '' @ exn_str e)),
        ev @ [StatusUpdate firebase_uid file_id (lit ''error'') 0
                (lit ''Summary merge failed: '' @ exn_str e)])"
proof -
  let ?t = "clean_text_for_llm text 24000"
  let ?err = "ValueError (lit ''Summary merge failed: '' @ exn_str e)"
  obtain chunks where ch: "chunk_text ?t CHUNK_SIZE_TOKENS CHUNK_OVERLAP_TOKENS = Some chunks"
    using chunk_text_default_returns by blast
  have g: "generate_summary env text = Some (chunked_summary env chunks)"
    using len ch by (simp add: generate_summary_def Let_def)
  from order have "set (completion env (length chunks)) = {0..<length chunks}" by simp
  from stage1_all_Some [OF this] obtain ss where
    ss: "fst (stage1_summaries env chunks) = map Some ss" by blast
  have "backend env MergeCall (merge_prompt (py_join [10] ss)) = Inl e" using fails by simp
  from merge_summaries_error [of "backend env" ss e, OF this other]
  have "fst (chunked_summary env chunks) = Inl ?err" by (simp add: chunked_summary_pair ss)
  then obtain ev1 where "chunked_summary env chunks = (Inl ?err, ev1)"
    by (cases "chunked_summary env chunks") simp
  then have "generate_summary env text = Some (Inl ?err, ev1)" using g by simp
  from summarize_and_store_error [OF this]
  have "process_text env firebase_uid file_id text title =
      Some (Inl ?err,
        ([StatusUpdate firebase_uid file_id (lit ''summarizing'') 50
            (lit ''Generating AI summary...'')] @ ev1) @
        [StatusUpdate firebase_uid file_id (lit ''error'') 0
           (lit ''Summary merge failed: '' @ exn_str e)])"
    by (simp add: process_text_def report_error_def)
  then show ?thesis by blast
qed

lemma sparse_text_default_chunks:
  "chunk_text sparse_text CHUNK_SIZE_TOKENS CHUNK_OVERLAP_TOKENS = Some [[97], [98]]"
  by (simp add: chunk_text_def CHUNK_SIZE_TOKENS_def CHUNK_OVERLAP_TOKENS_def CHARS_PER_TOKEN_def
      sparse_text_chunks)

text \<open>
  Claim C5, as the code has it. The merge stage joins the summaries in list order with
  newlines. When the merge request runs into a read timeout (\<open>httpx.ReadTimeout\<close>, the
  one timeout the \<open>except\<close> clause names), the result is \<open>"Key Points:\n"\<close> followed by
  the joined summaries: a non-empty string in which every summary occurs verbatim. Every
  other exception of the request, the connect, write and pool timeouts included, is
  raised as \<open>ValueError("Summary merge failed: ...")\<close>. For a text normalized to at
  least 3000 characters: with a merge request that always runs into a read timeout and
  an insert that succeeds, \<open>process_text\<close> stores the fallback and ends with the status
  \<open>complete\<close>; with a merge request that raises anything else, \<open>process_text\<close> raises
  and ends with the status \<open>error\<close>.
\<close>

theorem merge_summaries_policy:
  "(b MergeCall (merge_prompt (py_join [10] summaries)) = Inl (ReadTimeout m) \<longrightarrow>
      fst (merge_summaries b (map Some summaries)) =
        Inr (lit ''Key Points:\<newline>'' @ py_join [10] summaries) \<and>
      lit ''Key Points:\<newline>'' @ py_join [10] summaries \<noteq> [] \<and>
      (\<forall>s\<in>set summaries. py_contains (lit ''Key Points:\<newline>'' @ py_join [10] summaries) s)) \<and>
   (b MergeCall (merge_prompt (py_join [10] summaries)) = Inl e \<and> (\<forall>m. e \<noteq> ReadTimeout m) \<longrightarrow>
      fst (merge_summaries b (map Some summaries)) =
        Inl (ValueError (lit ''Summary merge failed: '' @ exn_str e))) \<and>
   (b MergeCall (merge_prompt (py_join [10] summaries)) = Inr response \<longrightarrow>
      fst (merge_summaries b (map Some summaries)) = Inr response) \<and>
   (3000 \<le> length (clean_text_for_llm text 24000) \<and>
    (\<forall>prompt. \<exists>m. backend env MergeCall prompt = Inl (ReadTimeout m)) \<and>
    (\<forall>n. set (completion env n) = {0..<n}) \<and>
    (\<forall>d u s. supabase_insert env d u s = None) \<longrightarrow>
      (\<exists>ev summary. process_text env firebase_uid file_id text title =
          Some (Inr (), ev @ [Insert file_id firebase_uid summary,
            StatusUpdate firebase_uid file_id (lit ''complete'') 100
              (lit ''Summary generated successfully!'')])
        \<and> py_startswith summary (lit ''Key Points:\<newline>''))) \<and>
   (3000 \<le> length (clean_text_for_llm text 24000) \<and>
    (\<forall>prompt. backend env MergeCall prompt = Inl e) \<and> (\<forall>m. e \<noteq> ReadTimeout m) \<and>
    (\<forall>n. set (completion env n) = {0..<n}) \<longrightarrow>
      (\<exists>ev. process_text env firebase_uid file_id text title =
          Some (Inl (ValueError (lit ''Summary merge failed: '' @ exn_str e)),
            ev @ [StatusUpdate firebase_uid file_id (lit ''error'') 0
                    (lit ''Summary merge failed: '' @ exn_str e)])))"
proof (intro conjI impI ballI)
  show "\<exists>ev. process_text env firebase_uid file_id text title =
          Some (Inl (ValueError (lit ''Summary merge failed: '' @ exn_str e)),
            ev @ [StatusUpdate firebase_uid file_id (lit ''error'') 0
                    (lit ''Summary merge failed: '' @ exn_str e)])"
    if "3000 \<le> length (clean_text_for_llm text 24000) \<and>
      (\<forall>prompt. backend env MergeCall prompt = Inl e) \<and> (\<forall>m. e \<noteq> ReadTimeout m) \<and>
      (\<forall>n. set (completion env n) = {0..<n})"
    using that by (intro process_text_merge_error) simp_all
  show "fst (merge_summaries b (map Some summaries)) =
        Inr (lit ''Key Points:\<newline>'' @ py_join [10] summaries)"
    if "b MergeCall (merge_prompt (py_join [10] summaries)) = Inl (ReadTimeout m)"
    using that by (rule merge_summaries_timeout)
  show "lit ''Key Points:\<newline>'' @ py_join [10] summaries \<noteq> []"
    by (rule py_strip_nonempty_arg) (rule key_points_not_blank)
  show "py_contains (lit ''Key Points:\<newline>'' @ py_join [10] summaries) s"
    if "s \<in> set summaries" for s
    using that by (rule py_contains_join)
  show "fst (merge_summaries b (map Some summaries)) =
        Inl (ValueError (lit ''Summary merge failed: '' @ exn_str e))"
    if "b MergeCall (merge_prompt (py_join [10] summaries)) = Inl e \<and> (\<forall>m. e \<noteq> ReadTimeout m)"
    using that by (intro merge_summaries_error) simp_all
  show "fst (merge_summaries b (map Some summaries)) = Inr response"
    if "b MergeCall (merge_prompt (py_join [10] summaries)) = Inr response"
    using that by (rule merge_summaries_response)
  show "\<exists>ev summary. process_text env firebase_uid file_id text title =
          Some (Inr (), ev @ [Insert file_id firebase_uid summary,
            StatusUpdate firebase_uid file_id (lit ''complete'') 100
              (lit ''Summary generated successfully!'')])
        \<and> py_startswith summary (lit ''Key Points:\<newline>'')"
    if "3000 \<le> length (clean_text_for_llm text 24000) \<and>
      (\<forall>prompt. \<exists>m. backend env MergeCall prompt = Inl (ReadTimeout m)) \<and>
      (\<forall>n. set (completion env n) = {0..<n}) \<and>
      (\<forall>d u s. supabase_insert env d u s = None)"
    using that by (intro process_text_merge_timeout) simp_all
qed

theorem merge_summaries_policy_witness:
  "backend timeout_env MergeCall (merge_prompt (py_join [10] [lit ''x'', lit ''y''])) =
     Inl (ReadTimeout (lit ''timed out''))
   \<and> fst (merge_summaries (backend timeout_env) (map Some [lit ''x'', lit ''y''])) =
       Inr (lit ''Key Points:\<newline>x\<newline>y'')
   \<and> py_contains (lit ''Key Points:\<newline>x\<newline>y'') (lit ''y'')
   \<and> fst (merge_summaries (\<lambda>site prompt. Inl (OtherException (lit ''boom'')))
            (map Some [lit ''x'', lit ''y''])) =
       Inl (ValueError (lit ''Summary merge failed: boom''))
   \<and> fst (merge_summaries (backend stub_env) (map Some [lit ''x'', lit ''y''])) =
       Inr ([8226] @ lit '' stub'')
   \<and> 3000 \<le> length (clean_text_for_llm sparse_text 24000)
   \<and> (\<exists>ev summary. process_text timeout_env (lit ''u'') (lit ''f'') sparse_text (lit ''t'') =
          Some (Inr (), ev @ [Insert (lit ''f'') (lit ''u'') summary,
            StatusUpdate (lit ''u'') (lit ''f'') (lit ''complete'') 100
              (lit ''Summary generated successfully!'')])
        \<and> py_startswith summary (lit ''Key Points:\<newline>''))
   \<and> (\<exists>ev. process_text connect_timeout_env (lit ''u'') (lit ''f'') sparse_text (lit ''t'') =
          Some (Inl (ValueError (lit ''Summary merge failed: connect timed out'')),
            ev @ [StatusUpdate (lit ''u'') (lit ''f'') (lit ''error'') 0
                    (lit ''Summary merge failed: connect timed out'')]))"
proof -
  let ?xy = "[lit ''x'', lit ''y'']"
  let ?boom = "\<lambda>(site::call_site) (prompt::pystr). (Inl (OtherException (lit ''boom'')) :: exn + pystr)"
  have j: "lit ''Key Points:\<newline>'' @ py_join [10] ?xy = lit ''Key Points:\<newline>x\<newline>y''"
    by (simp add: lit_def)
  have b: "backend timeout_env MergeCall prompt = Inl (ReadTimeout (lit ''timed out''))" for prompt
    by (simp add: timeout_env_def)
  have h1: "3000 \<le> length (clean_text_for_llm sparse_text 24000)"
    by (simp add: sparse_text_normalized sparse_text_length)
  have h2: "\<forall>prompt. \<exists>m. backend timeout_env MergeCall prompt = Inl (ReadTimeout m)"
    using b by blast
  have h3: "\<forall>n. set (completion timeout_env n) = {0..<n}"
    by (simp add: timeout_env_def stub_env_def)
  have h4: "\<forall>d u s. supabase_insert timeout_env d u s = None"
    by (simp add: timeout_env_def stub_env_def)
  note t = merge_summaries_policy [of "backend timeout_env" ?xy
      "lit ''timed out''" _ _ sparse_text timeout_env "lit ''u''" "lit ''f''" "lit ''t''"]
  from t b have "fst (merge_summaries (backend timeout_env) (map Some ?xy)) =
        Inr (lit ''Key Points:\<newline>'' @ py_join [10] ?xy)"
    and "\<forall>s\<in>set ?xy. py_contains (lit ''Key Points:\<newline>'' @ py_join [10] ?xy) s"
    by blast+
  then have m: "fst (merge_summaries (backend timeout_env) (map Some ?xy)) =
       Inr (lit ''Key Points:\<newline>x\<newline>y'')"
    and cn: "py_contains (lit ''Key Points:\<newline>x\<newline>y'') (lit ''y'')"
    unfolding j by simp_all
  from t h1 h2 h3 h4
  have p: "\<exists>ev summary. process_text timeout_env (lit ''u'') (lit ''f'') sparse_text (lit ''t'') =
          Some (Inr (), ev @ [Insert (lit ''f'') (lit ''u'') summary,
            StatusUpdate (lit ''u'') (lit ''f'') (lit ''complete'') 100
              (lit ''Summary generated successfully!'')])
        \<and> py_startswith summary (lit ''Key Points:\<newline>'')"
    by blast
  have e1: "?boom MergeCall (merge_prompt (py_join [10] ?xy)) = Inl (OtherException (lit ''boom''))
      \<and> (\<forall>m. OtherException (lit ''boom'') \<noteq> ReadTimeout m)"
    by simp
  from merge_summaries_policy [of ?boom ?xy _ "OtherException (lit ''boom'')"] e1
  have "fst (merge_summaries ?boom (map Some ?xy)) =
       Inl (ValueError (lit ''Summary merge failed: '' @ exn_str (OtherException (lit ''boom''))))"
    by blast
  then have e: "fst (merge_summaries ?boom (map Some ?xy)) =
       Inl (ValueError (lit ''Summary merge failed: boom''))"
    by (simp add: lit_def)
  have r1: "backend stub_env MergeCall (merge_prompt (py_join [10] ?xy)) = Inr ([8226] @ lit '' stub'')"
    by (simp add: stub_env_def)
  from merge_summaries_policy [of "backend stub_env" ?xy _ _ "[8226] @ lit '' stub''"] r1
  have r: "fst (merge_summaries (backend stub_env) (map Some ?xy)) = Inr ([8226] @ lit '' stub'')"
    by blast
  have k1: "\<forall>prompt. backend connect_timeout_env MergeCall prompt =
      Inl (ConnectTimeout (lit ''connect timed out''))"
    by (simp add: connect_timeout_env_def)
  have k2: "\<forall>m. ConnectTimeout (lit ''connect timed out'') \<noteq> ReadTimeout m" by simp
  have k3: "\<forall>n. set (completion connect_timeout_env n) = {0..<n}"
    by (simp add: connect_timeout_env_def stub_env_def)
  from merge_summaries_policy [of _ _ _ "ConnectTimeout (lit ''connect timed out'')" _
      sparse_text connect_timeout_env "lit ''u''" "lit ''f''" "lit ''t''"] h1 k1 k2 k3
  have "\<exists>ev. process_text connect_timeout_env (lit ''u'') (lit ''f'') sparse_text (lit ''t'') =
          Some (Inl (ValueError (lit ''Summary merge failed: ''
                  @ exn_str (ConnectTimeout (lit ''connect timed out'')))),
            ev @ [StatusUpdate (lit ''u'') (lit ''f'') (lit ''error'') 0
                    (lit ''Summary merge failed: ''
                     @ exn_str (ConnectTimeout (lit ''connect timed out'')))])"
    by blast
  then have q: "\<exists>ev. process_text connect_timeout_env (lit ''u'') (lit ''f'') sparse_text (lit ''t'') =
          Some (Inl (ValueError (lit ''Summary merge failed: connect timed out'')),
            ev @ [StatusUpdate (lit ''u'') (lit ''f'') (lit ''error'') 0
                    (lit ''Summary merge failed: connect timed out'')])"
    by (simp add: lit_def)
  from b m cn e r h1 p q show ?thesis by blast
qed

text \<open>
  Not every request timeout degrades: a connect timeout of the merge request is raised
  as \<open>ValueError\<close>, and the run of \<open>process_text\<close> ends with the status \<open>error\<close>.
\<close>

theorem merge_summaries_policy_counterexample:
  "fst (merge_summaries (backend connect_timeout_env) (map Some [lit ''x'', lit ''y''])) =
     Inl (ValueError (lit ''Summary merge failed: connect timed out''))
   \<and> process_text connect_timeout_env (lit ''u'') (lit ''f'') sparse_text (lit ''t'') =
       Some (Inl (ValueError (lit ''Summary merge failed: connect timed out'')),
         [StatusUpdate (lit ''u'') (lit ''f'') (lit ''summarizing'') 50
            (lit ''Generating AI summary...''),
          BackendCall (ChunkCall 0) (chunk_prompt [97]),
          BackendCall (ChunkCall 1) (chunk_prompt [98]),
          BackendCall MergeCall
            (merge_prompt ([8226] @ lit '' stub'' @ [10] @ [8226] @ lit '' stub'')),
          StatusUpdate (lit ''u'') (lit ''f'') (lit ''error'') 0
            (lit ''Summary merge failed: connect timed out'')])"
proof -
  have b: "backend connect_timeout_env MergeCall prompt = Inl (ConnectTimeout (lit ''connect timed out''))"
    for prompt by (simp add: connect_timeout_env_def)
  have m: "fst (merge_summaries (backend connect_timeout_env) (map Some [lit ''x'', lit ''y''])) =
     Inl (ValueError (lit ''Summary merge failed: connect timed out''))"
    using merge_summaries_error [of "backend connect_timeout_env" "[lit ''x'', lit ''y'']"
        "ConnectTimeout (lit ''connect timed out'')"] b
    by (simp add: lit_def)
  have s: "stage1_summaries connect_timeout_env [[97], [98]] =
      ([Some ([8226] @ lit '' stub''), Some ([8226] @ lit '' stub'')],
       [BackendCall (ChunkCall 0) (chunk_prompt [97]),
        BackendCall (ChunkCall 1) (chunk_prompt [98])])"
    by (simp add: stage1_summaries_def sequential_summaries.simps summarize_chunk_sync_def
        connect_timeout_env_def py_startswith_def py_strip_def is_space_def lit_def)
  have c: "chunked_summary connect_timeout_env [[97], [98]] =
      (Inl (ValueError (lit ''Summary merge failed: connect timed out'')),
       [BackendCall (ChunkCall 0) (chunk_prompt [97]),
        BackendCall (ChunkCall 1) (chunk_prompt [98]),
        BackendCall MergeCall
          (merge_prompt ([8226] @ lit '' stub'' @ [10] @ [8226] @ lit '' stub''))])"
    by (simp add: chunked_summary_def s merge_summaries_def b Let_def) (simp add: lit_def)
  have "generate_summary connect_timeout_env sparse_text =
      Some (chunked_summary connect_timeout_env [[97], [98]])"
    by (simp add: generate_summary_def sparse_text_normalized sparse_text_length
        sparse_text_default_chunks)
  then have "generate_summary connect_timeout_env sparse_text =
      Some (Inl (ValueError (lit ''Summary merge failed: connect timed out'')),
       [BackendCall (ChunkCall 0) (chunk_prompt [97]),
        BackendCall (ChunkCall 1) (chunk_prompt [98]),
        BackendCall MergeCall
          (merge_prompt ([8226] @ lit '' stub'' @ [10] @ [8226] @ lit '' stub''))])"
    unfolding c .
  from summarize_and_store_error [OF this]
  have "process_text connect_timeout_env (lit ''u'') (lit ''f'') sparse_text (lit ''t'') =
       Some (Inl (ValueError (lit ''Summary merge failed: connect timed out'')),
         [StatusUpdate (lit ''u'') (lit ''f'') (lit ''summarizing'') 50
            (lit ''Generating AI summary...''),
          BackendCall (ChunkCall 0) (chunk_prompt [97]),
          BackendCall (ChunkCall 1) (chunk_prompt [98]),
          BackendCall MergeCall
            (merge_prompt ([8226] @ lit '' stub'' @ [10] @ [8226] @ lit '' stub'')),
          StatusUpdate (lit ''u'') (lit ''f'') (lit ''error'') 0
            (lit ''Summary merge failed: connect timed out'')])"
    by (simp add: process_text_def report_error_def)
  with m show ?thesis by blast
qed

text \<open>
  Claim C10. On the single-pass path every exception of the request, the read timeout
  included, makes \<open>generate_summary\<close> raise a \<open>ValueError\<close> after its one request; the
  merge stage, in contrast, returns the fallback on a read timeout.
\<close>

theorem single_pass_failure_raises:
  "length (clean_text_for_llm text 24000) < 3000 \<Longrightarrow>
   backend env SingleCall (single_prompt (clean_text_for_llm text 24000)) = Inl e \<Longrightarrow>
     generate_summary env text =
       Some (Inl (ValueError (case e of
                    ReadTimeout m \<Rightarrow>
                      lit ''Summary generation timed out. Please try with a smaller document.''
                  | _ \<Rightarrow> lit ''Summary generation failed: '' @ exn_str e)),
             [BackendCall SingleCall (single_prompt (clean_text_for_llm text 24000))])
     \<and> (\<forall>summaries m.
          backend env MergeCall (merge_prompt (py_join [10] summaries)) = Inl (ReadTimeout m) \<longrightarrow>
          fst (merge_summaries (backend env) (map Some summaries)) =
            Inr (lit ''Key Points:\<newline>'' @ py_join [10] summaries))"
  by (simp add: generate_summary_def Let_def generate_single_summary_failure merge_summaries_timeout)


theorem single_pass_failure_raises_witness:
  "length (clean_text_for_llm (lit ''short text'') 24000) < 3000
   \<and> backend timeout_env SingleCall (single_prompt (clean_text_for_llm (lit ''short text'') 24000)) =
       Inl (ReadTimeout (lit ''timed out''))
   \<and> generate_summary timeout_env (lit ''short text'') =
       Some (Inl (ValueError
               (lit ''Summary generation timed out. Please try with a smaller document.'')),
             [BackendCall SingleCall (single_prompt (lit ''short text''))])"
proof -
  have h1: "length (clean_text_for_llm (lit ''short text'') 24000) < 3000"
    unfolding short_text_clean by (simp add: lit_def)
  have h2: "backend timeout_env SingleCall (single_prompt (clean_text_for_llm (lit ''short text'') 24000)) =
       Inl (ReadTimeout (lit ''timed out''))"
    by (simp add: timeout_env_def)
  from single_pass_failure_raises [OF h1 h2] h1 h2 show ?thesis
    by (simp add: short_text_clean)
qed

section \<open>Properties of the orchestrator\<close>

lemma merge_no_single:
  "BackendCall SingleCall p \<notin> set (snd (merge_summaries b slots))"
  by (simp add: merge_summaries_def Let_def split: option.splits)

lemma chunked_summary_no_single:
  "BackendCall SingleCall p \<notin> set (snd (chunked_summary env chunks))"
  by (auto simp: chunked_summary_pair stage1_requests merge_no_single)

lemma chunked_summary_requests:
  "\<exists>rest. snd (chunked_summary env chunks) =
     map (\<lambda>i. BackendCall (ChunkCall i) (chunk_prompt (chunks ! i))) [0..<length chunks] @ rest"
  by (simp add: chunked_summary_pair stage1_requests)

lemma single_prompt_contains: "py_contains (single_prompt t) t"
  unfolding single_prompt_def by (rule py_contains_mid)

lemma py_join_hd: "l \<noteq> [] \<Longrightarrow> hd (py_join sep (l # ls)) = hd l"
  by (cases ls) simp_all

lemma clean_joined_hd:
  assumes "clean_joined t \<noteq> []"
  shows "\<not> is_space (hd (clean_joined t))"
proof -
  from assms obtain l ls where c: "clean_lines t = l # ls"
    by (cases "clean_lines t") (auto simp: clean_joined_def)
  then have "l \<in> set (clean_lines t)" by simp
  from clean_lines_props [OF this] have l: "l \<noteq> []" "py_strip l = l" by simp_all
  then have "\<not> is_space (hd l)" using py_strip_ends(1) [of l] by simp
  then show ?thesis using l(1) by (simp add: clean_joined_def c py_join_hd)
qed

lemma clean_text_hd:
  assumes "clean_text_for_llm t cap \<noteq> []" "0 < cap"
  shows "\<not> is_space (hd (clean_text_for_llm t cap))"
proof (cases "int (length (clean_joined t)) > cap")
  case False
  then show ?thesis using assms clean_joined_hd [of t] by (simp add: clean_text_for_llm_def)
next
  case True
  then have ne: "clean_joined t \<noteq> []" using assms(2) by auto
  have "clean_text_for_llm t cap = take (nat cap) (clean_joined t) @ truncation_marker"
    using True assms(2) by (simp add: clean_text_for_llm_def py_slice_prefix)
  moreover have "take (nat cap) (clean_joined t) \<noteq> []" using ne assms(2) by simp
  ultimately have "hd (clean_text_for_llm t cap) = hd (clean_joined t)"
    using assms(2) by (simp add: hd_append)
  then show ?thesis using clean_joined_hd [OF ne] by simp
qed

lemma chunk_text_default_nonempty:
  assumes "t \<noteq> []" "\<not> is_space (hd t)"
  shows "\<exists>chunks. chunk_text t CHUNK_SIZE_TOKENS CHUNK_OVERLAP_TOKENS = Some chunks \<and> chunks \<noteq> []"
proof -
  have "\<exists>cs. chunk_loop t 4000 300 0 [] = Some cs \<and>
      (\<forall>p<length t. \<not> is_space (t ! p) \<longrightarrow> (\<exists>c\<in>set cs. in_chunk t c p))"
    by (rule chunk_loop_covers) simp_all
  then obtain cs where cs: "chunk_loop t 4000 300 0 [] = Some cs"
    "\<forall>p<length t. \<not> is_space (t ! p) \<longrightarrow> (\<exists>c\<in>set cs. in_chunk t c p)"
    by blast
  have "0 < length t" "\<not> is_space (t ! 0)" using assms by (simp_all add: hd_conv_nth)
  with cs(2) have "\<exists>c\<in>set cs. in_chunk t c 0" by blast
  then have "cs \<noteq> []" by auto
  with cs(1) show ?thesis
    by (simp add: chunk_text_def CHUNK_SIZE_TOKENS_def CHUNK_OVERLAP_TOKENS_def CHARS_PER_TOKEN_def)
qed

lemma boundary_text_clean: "clean_text_for_llm (replicate 3000 97) 24000 = replicate 3000 97"
proof -
  have "clean_joined (replicate 3000 97) = replicate 3000 97"
    by (rule clean_joined_single) (simp_all add: is_space_def)
  then show ?thesis by (simp add: clean_text_for_llm_def)
qed


text \<open>
  Claim C1. \<open>generate_summary\<close> normalizes first. Below 3000 normalized characters it
  makes the single-pass request, whose prompt contains the normalized text, and nothing
  else: \<open>chunk_text\<close> is not called, and an answer of the backend is the result. From 3000
  characters on (3000 included) \<open>chunk_text\<close> returns a non-empty list of chunks, one
  request is posted per chunk, in order, no single-pass request is made, and, when every
  future completes, the events end with the merge request for the joined slots and the
  result is that of \<open>merge_summaries\<close> on them.
\<close>

theorem generate_summary_paths:
  "(length (clean_text_for_llm text 24000) < 3000 \<longrightarrow>
      generate_summary env text =
        Some (generate_single_summary (backend env) (clean_text_for_llm text 24000)) \<and>
      snd (generate_single_summary (backend env) (clean_text_for_llm text 24000)) =
        [BackendCall SingleCall (single_prompt (clean_text_for_llm text 24000))] \<and>
      py_contains (single_prompt (clean_text_for_llm text 24000)) (clean_text_for_llm text 24000) \<and>
      (\<forall>response.
         backend env SingleCall (single_prompt (clean_text_for_llm text 24000)) = Inr response \<longrightarrow>
         generate_summary env text =
           Some (Inr response,
                 [BackendCall SingleCall (single_prompt (clean_text_for_llm text 24000))]))) \<and>
   (3000 \<le> length (clean_text_for_llm text 24000) \<longrightarrow>
      (\<exists>chunks. chunk_text (clean_text_for_llm text 24000) CHUNK_SIZE_TOKENS CHUNK_OVERLAP_TOKENS =
           Some chunks \<and> chunks \<noteq> [] \<and>
         generate_summary env text = Some (chunked_summary env chunks) \<and>
         (\<forall>p. BackendCall SingleCall p \<notin> set (snd (chunked_summary env chunks))) \<and>
         (\<exists>rest. snd (chunked_summary env chunks) =
            map (\<lambda>i. BackendCall (ChunkCall i) (chunk_prompt (chunks ! i))) [0..<length chunks]
            @ rest) \<and>
         ((\<forall>n. set (completion env n) = {0..<n}) \<longrightarrow>
            (\<exists>summaries. length summaries = length chunks \<and>
               fst (stage1_summaries env chunks) = map Some summaries \<and>
               generate_summary env text =
                 Some (fst (merge_summaries (backend env) (map Some summaries)),
                       map (\<lambda>i. BackendCall (ChunkCall i) (chunk_prompt (chunks ! i)))
                         [0..<length chunks] @
                       [BackendCall MergeCall (merge_prompt (py_join [10] summaries))])))))"
proof (intro conjI impI allI)
  let ?t = "clean_text_for_llm text 24000"
  assume s: "length ?t < 3000"
  then show g: "generate_summary env text = Some (generate_single_summary (backend env) ?t)"
    by (simp add: generate_summary_def Let_def)
  show "snd (generate_single_summary (backend env) ?t) = [BackendCall SingleCall (single_prompt ?t)]"
    by (simp add: generate_single_summary_def)
  show "py_contains (single_prompt ?t) ?t" by (rule single_prompt_contains)
  fix response assume "backend env SingleCall (single_prompt ?t) = Inr response"
  then show "generate_summary env text =
      Some (Inr response, [BackendCall SingleCall (single_prompt ?t)])"
    unfolding g by (simp add: generate_single_summary_def)
next
  let ?t = "clean_text_for_llm text 24000"
  assume l: "3000 \<le> length ?t"
  then have ne: "?t \<noteq> []" by auto
  from clean_text_hd [OF ne] have "\<not> is_space (hd ?t)" by simp
  from chunk_text_default_nonempty [OF ne this]
  obtain chunks where c: "chunk_text ?t CHUNK_SIZE_TOKENS CHUNK_OVERLAP_TOKENS = Some chunks"
    "chunks \<noteq> []" by blast
  have g: "generate_summary env text = Some (chunked_summary env chunks)"
    using l c(1) by (simp add: generate_summary_def Let_def)
  have m: "(\<forall>n. set (completion env n) = {0..<n}) \<longrightarrow>
            (\<exists>summaries. length summaries = length chunks \<and>
               fst (stage1_summaries env chunks) = map Some summaries \<and>
               generate_summary env text =
                 Some (fst (merge_summaries (backend env) (map Some summaries)),
                       map (\<lambda>i. BackendCall (ChunkCall i) (chunk_prompt (chunks ! i)))
                         [0..<length chunks] @
                       [BackendCall MergeCall (merge_prompt (py_join [10] summaries))]))"
  proof
    assume "\<forall>n. set (completion env n) = {0..<n}"
    then have "set (completion env (length chunks)) = {0..<length chunks}" by simp
    from stage1_all_Some [OF this] obtain ss where
      ss: "fst (stage1_summaries env chunks) = map Some ss" by blast
    have "length (map Some ss) = length chunks" using ss stage1_length [of env chunks] by simp
    then have "length ss = length chunks" by simp
    with ss chunked_summary_merge [OF ss] g
    show "\<exists>summaries. length summaries = length chunks \<and>
               fst (stage1_summaries env chunks) = map Some summaries \<and>
               generate_summary env text =
                 Some (fst (merge_summaries (backend env) (map Some summaries)),
                       map (\<lambda>i. BackendCall (ChunkCall i) (chunk_prompt (chunks ! i)))
                         [0..<length chunks] @
                       [BackendCall MergeCall (merge_prompt (py_join [10] summaries))])"
      by auto
  qed
  from c g m chunked_summary_no_single chunked_summary_requests
  show "\<exists>chunks. chunk_text ?t CHUNK_SIZE_TOKENS CHUNK_OVERLAP_TOKENS = Some chunks \<and> chunks \<noteq> [] \<and>
         generate_summary env text = Some (chunked_summary env chunks) \<and>
         (\<forall>p. BackendCall SingleCall p \<notin> set (snd (chunked_summary env chunks))) \<and>
         (\<exists>rest. snd (chunked_summary env chunks) =
            map (\<lambda>i. BackendCall (ChunkCall i) (chunk_prompt (chunks ! i))) [0..<length chunks]
            @ rest) \<and>
         ((\<forall>n. set (completion env n) = {0..<n}) \<longrightarrow>
            (\<exists>summaries. length summaries = length chunks \<and>
               fst (stage1_summaries env chunks) = map Some summaries \<and>
               generate_summary env text =
                 Some (fst (merge_summaries (backend env) (map Some summaries)),
                       map (\<lambda>i. BackendCall (ChunkCall i) (chunk_prompt (chunks ! i)))
                         [0..<length chunks] @
                       [BackendCall MergeCall (merge_prompt (py_join [10] summaries))])))"
    by blast
qed

theorem generate_summary_paths_witness:
  "length (clean_text_for_llm (lit ''short text'') 24000) < 3000
   \<and> generate_summary stub_env (lit ''short text'') =
       Some (Inr ([8226] @ lit '' stub''),
             [BackendCall SingleCall (single_prompt (lit ''short text''))])
   \<and> length (clean_text_for_llm (replicate 3000 97) 24000) = 3000
   \<and> (\<exists>chunks. chunk_text (replicate 3000 97) CHUNK_SIZE_TOKENS CHUNK_OVERLAP_TOKENS = Some chunks
         \<and> generate_summary stub_env (replicate 3000 97) = Some (chunked_summary stub_env chunks))
   \<and> 3000 \<le> length (clean_text_for_llm sparse_text 24000)
   \<and> chunk_text sparse_text CHUNK_SIZE_TOKENS CHUNK_OVERLAP_TOKENS = Some [[97], [98]]
   \<and> generate_summary stub_env sparse_text =
       Some (Inr ([8226] @ lit '' stub''),
             [BackendCall (ChunkCall 0) (chunk_prompt [97]),
              BackendCall (ChunkCall 1) (chunk_prompt [98]),
              BackendCall MergeCall
                (merge_prompt ([8226] @ lit '' stub'' @ [10] @ [8226] @ lit '' stub''))])"
proof -
  have h1: "length (clean_text_for_llm (lit ''short text'') 24000) < 3000"
    unfolding short_text_clean by (simp add: lit_def)
  have h2: "3000 \<le> length (clean_text_for_llm (replicate 3000 97) 24000)"
    "length (clean_text_for_llm (replicate 3000 97) 24000) = 3000"
    by (simp_all add: boundary_text_clean)
  have h3: "3000 \<le> length (clean_text_for_llm sparse_text 24000)"
    by (simp add: sparse_text_normalized sparse_text_length)
  have h4: "\<forall>n. set (completion stub_env n) = {0..<n}" by (simp add: stub_env_def)
  have r: "backend stub_env SingleCall (single_prompt (clean_text_for_llm (lit ''short text'') 24000)) =
      Inr ([8226] @ lit '' stub'')"
    by (simp add: stub_env_def)
  from generate_summary_paths [of "lit ''short text''" stub_env] h1 r
  have "generate_summary stub_env (lit ''short text'') =
      Some (Inr ([8226] @ lit '' stub''),
            [BackendCall SingleCall (single_prompt (clean_text_for_llm (lit ''short text'') 24000))])"
    by blast
  then have a: "generate_summary stub_env (lit ''short text'') =
       Some (Inr ([8226] @ lit '' stub''),
             [BackendCall SingleCall (single_prompt (lit ''short text''))])"
    by (simp add: short_text_clean)
  from generate_summary_paths [of "replicate 3000 97" stub_env] h2(1)
  have b: "\<exists>chunks. chunk_text (replicate 3000 97) CHUNK_SIZE_TOKENS CHUNK_OVERLAP_TOKENS = Some chunks
         \<and> generate_summary stub_env (replicate 3000 97) = Some (chunked_summary stub_env chunks)"
    unfolding boundary_text_clean by blast
  from generate_summary_paths [of sparse_text stub_env] h3 h4
  obtain chunks summaries where
    c: "chunk_text (clean_text_for_llm sparse_text 24000) CHUNK_SIZE_TOKENS CHUNK_OVERLAP_TOKENS =
          Some chunks"
    and s: "fst (stage1_summaries stub_env chunks) = map Some summaries"
    and g: "generate_summary stub_env sparse_text =
         Some (fst (merge_summaries (backend stub_env) (map Some summaries)),
               map (\<lambda>i. BackendCall (ChunkCall i) (chunk_prompt (chunks ! i))) [0..<length chunks] @
               [BackendCall MergeCall (merge_prompt (py_join [10] summaries))])"
    by blast
  from c have ch: "chunks = [[97], [98]]"
    by (simp add: sparse_text_normalized sparse_text_default_chunks)
  have "fst (stage1_summaries stub_env [[97], [98]]) =
      map Some [[8226] @ lit '' stub'', [8226] @ lit '' stub'']"
    by (simp add: stage1_summaries_def sequential_summaries.simps summarize_chunk_sync_def
        stub_env_def py_startswith_def py_strip_def is_space_def lit_def)
  with s have "map Some summaries = map Some [[8226] @ lit '' stub'', [8226] @ lit '' stub'']"
    unfolding ch by simp
  then have "map the (map Some summaries) =
      map the (map Some [[8226] @ lit '' stub'', [8226] @ lit '' stub''])"
    by (rule arg_cong)
  then have ss: "summaries = [[8226] @ lit '' stub'', [8226] @ lit '' stub'']"
    by (simp add: comp_def)
  have m: "fst (merge_summaries (backend stub_env) (map Some summaries)) = Inr ([8226] @ lit '' stub'')"
    by (simp add: merge_summaries_def those_map_Some Let_def stub_env_def)
  have e: "generate_summary stub_env sparse_text =
       Some (Inr ([8226] @ lit '' stub''),
             [BackendCall (ChunkCall 0) (chunk_prompt [97]),
              BackendCall (ChunkCall 1) (chunk_prompt [98]),
              BackendCall MergeCall
                (merge_prompt ([8226] @ lit '' stub'' @ [10] @ [8226] @ lit '' stub''))])"
    unfolding g m unfolding ss ch by (simp add: upt_rec)
  from h1 a h2(2) b h3 sparse_text_default_chunks e show ?thesis by blast
qed

text \<open>
  The two sibling entry points stop before any request when the extracted text is empty
  or whitespace only.
\<close>

lemma process_url_empty_extraction:
  assumes "extract_url env url = Inr extracted_text" "py_strip extracted_text = []"
  shows "process_url env firebase_uid file_id url =
     Some (Inl (ValueError (lit ''No content could be extracted from URL'')),
       [StatusUpdate firebase_uid file_id (lit ''extracting'') 40
          (lit ''Extracting content from URL...''),
        StatusUpdate firebase_uid file_id (lit ''error'') 0
          (lit ''No content could be extracted from URL'')])"
  using assms by (simp add: process_url_def report_error_def)

lemma process_file_empty_extraction:
  assumes "download_from_storage env storage_path = Inr file_bytes"
    "extract_by_type env file_type
       (if 46 \<in> set storage_path then last (py_split 46 storage_path) else file_type)
       file_bytes = Inr extracted_text"
    "py_strip extracted_text = []"
  shows "process_file env firebase_uid file_id storage_path file_type =
     Some (Inl (ValueError (lit ''No text could be extracted from file'')),
       [StatusUpdate firebase_uid file_id (lit ''extracting'') 40
          (lit ''Extracting text from '' @ file_type @ lit ''...''),
        StatusUpdate firebase_uid file_id (lit ''error'') 0
          (lit ''No text could be extracted from file'')])"
  using assms by (simp add: process_file_def report_error_def Let_def)




text \<open>
  Claim C9 at the input that \<open>process_text\<close> does not guard: for the empty text and a
  backend that answers, one single-pass request is made with an empty study material,
  the answer is stored and the status ends at \<open>complete\<close>.
\<close>

theorem process_text_empty_input:
  "process_text stub_env firebase_uid file_id [] title =
     Some (Inr (),
       [StatusUpdate firebase_uid file_id (lit ''summarizing'') 50 (lit ''Generating AI summary...''),
        BackendCall SingleCall (single_prompt []),
        Insert file_id firebase_uid ([8226] @ lit '' stub''),
        StatusUpdate firebase_uid file_id (lit ''complete'') 100
          (lit ''Summary generated successfully!'')])"
proof -
  have c: "clean_text_for_llm [] 24000 = []"
    by (simp add: clean_text_for_llm_def clean_joined_def clean_lines_def py_strip_def)
  have g: "generate_summary stub_env [] =
      Some (Inr ([8226] @ lit '' stub''), [BackendCall SingleCall (single_prompt [])])"
    by (simp add: generate_summary_def c generate_single_summary_def stub_env_def)
  have s: "py_strip ([8226] @ lit '' stub'') \<noteq> []"
    by (rule py_strip_nonempty [where c = 8226]) (simp_all add: is_space_def)
  have i: "supabase_insert stub_env file_id firebase_uid ([8226] @ lit '' stub'') = None"
    by (simp add: stub_env_def)
  from summarize_and_store_ok [OF g s i] show ?thesis
    by (simp add: process_text_def)
qed

end
